theory Spec2Isabelle
  imports Main
begin

section \<open>Values thrown and caught\<close>

text \<open>
  A JavaScript exception is any value. The handlers only ever read three properties of a
  caught value: \<open>status\<close> and \<open>message\<close> (the route handlers' \<open>catch ({ status, message })\<close>)
  and \<open>code\<close> (the layout's \<open>error?.code?.startsWith('FAST_JWT')\<close>). A property that is
  absent (\<open>undefined\<close>) is \<open>None\<close>. The two values that have no properties at all,
  \<open>undefined\<close> and \<open>null\<close>, are kept apart: reading a property of them, or
  destructuring them, throws a \<open>TypeError\<close>.
\<close>

record thrown =
  status :: "int option"
  message :: "string option"
  code :: "string option"

datatype exn = Undefined | Null | Obj thrown

definition TypeError :: "string \<Rightarrow> exn" where
  \<comment> \<open>a built-in \<open>TypeError\<close>: it carries a message, and neither status nor code\<close>
  "TypeError m = Obj \<lparr>status = None, message = Some m, code = None\<rparr>"

section \<open>Strings as JavaScript handles them\<close>

definition truthy :: "string option \<Rightarrow> bool" where
  \<comment> \<open>\<open>if (s)\<close> on a string that may be undefined or null: false for both and for \<open>''\<close>\<close>
  "truthy s = (case s of None \<Rightarrow> False | Some v \<Rightarrow> v \<noteq> [])"

fun split :: "char \<Rightarrow> string \<Rightarrow> string list" where
  \<comment> \<open>\<open>s.split(c)\<close> for a separator of one character: \<open>''.split(c)\<close> is \<open>['']\<close>\<close>
  "split c [] = [[]]"
| "split c (x # xs) =
     (if x = c then [] # split c xs
      else (case split c xs of [] \<Rightarrow> [[x]] | y # ys \<Rightarrow> (x # y) # ys))"

definition startsWith :: "string \<Rightarrow> string \<Rightarrow> bool" where
  \<comment> \<open>\<open>s.startsWith(p)\<close>\<close>
  "startsWith p s = (take (length p) s = p)"

fun replace :: "string \<Rightarrow> string \<Rightarrow> string \<Rightarrow> string" where
  \<comment> \<open>\<open>s.replace(pat, rep)\<close> with a string pattern: the first occurrence only\<close>
  "replace pat rep [] = (if pat = [] then rep else [])"
| "replace pat rep (x # xs) =
     (if startsWith pat (x # xs) then rep @ drop (length pat) (x # xs)
      else x # replace pat rep xs)"

section \<open>The layout's load function\<close>

text \<open>
  \<open>load\<close> reads the cookie jar (\<open>Cookies.get('token')\<close>), may clear it
  (\<open>Cookies.remove('token')\<close>) and calls the API through \<open>get\<close>, which is imported from
  \<open>$lib/api\<close> and is a parameter here: it returns the response or rejects with a thrown
  value. The result pairs what \<open>load\<close> returns (\<open>Inr\<close>) or throws (\<open>Inl\<close>) with the
  cookie left behind. In the catch clause \<open>error?.code\<close> is safe on \<open>undefined\<close> and
  \<open>null\<close>, but \<open>error.status\<close> is not: there the clause itself throws.
\<close>

record 'j props =
  response :: "'j option"
  baseSettings :: 'j

record 'j loadOutput =
  out_status :: "nat option"
  out_redirect :: "string option"
  out_error :: "thrown option"
  out_props :: "'j props"
  out_stuff :: "'j option"

definition redirectToLogin :: "'j \<Rightarrow> 'j loadOutput" where
  \<comment> \<open>\<open>{ status: 302, redirect: '/login', props: { baseSettings } }\<close>\<close>
  "redirectToLogin b =
     \<lparr>out_status = Some 302, out_redirect = Some ''/login'', out_error = None,
      out_props = \<lparr>response = None, baseSettings = b\<rparr>, out_stuff = None\<rparr>"

definition plainProps :: "'j \<Rightarrow> 'j loadOutput" where
  \<comment> \<open>\<open>{ props: { baseSettings } }\<close>\<close>
  "plainProps b =
     \<lparr>out_status = None, out_redirect = None, out_error = None,
      out_props = \<lparr>response = None, baseSettings = b\<rparr>, out_stuff = None\<rparr>"

definition load_caught ::
  "string \<Rightarrow> 'j \<Rightarrow> thrown \<Rightarrow> string option \<Rightarrow> 'j loadOutput \<times> string option" where
  \<comment> \<open>the catch clause on a value that has properties\<close>
  "load_caught pathname b error cookie =
     (if (case code error of None \<Rightarrow> False | Some c \<Rightarrow> startsWith ''FAST_JWT'' c)
         \<or> status error = Some 401
      then (if pathname \<noteq> ''/login'' then (redirectToLogin b, None)
            else (\<lparr>out_status = Some 500, out_redirect = None, out_error = Some error,
                   out_props = \<lparr>response = None, baseSettings = b\<rparr>, out_stuff = None\<rparr>, None))
      else if pathname \<noteq> ''/login'' then (redirectToLogin b, cookie)
      else (\<lparr>out_status = Some 500, out_redirect = None, out_error = Some error,
             out_props = \<lparr>response = None, baseSettings = b\<rparr>, out_stuff = None\<rparr>, cookie))"

definition load_catch ::
  "string \<Rightarrow> 'j \<Rightarrow> exn \<Rightarrow> string option \<Rightarrow> (exn + 'j loadOutput) \<times> string option" where
  "load_catch pathname b error cookie =
     (case error of
        Undefined \<Rightarrow>
          (Inl (TypeError ''Cannot read properties of undefined (reading 'status')''), cookie)
      | Null \<Rightarrow> (Inl (TypeError ''Cannot read properties of null (reading 'status')''), cookie)
      | Obj e \<Rightarrow> (case load_caught pathname b e cookie of (out, c) \<Rightarrow> (Inr out, c)))"

definition load ::
  "(string \<Rightarrow> exn + 'j) \<Rightarrow> string \<Rightarrow> string option
     \<Rightarrow> (exn + 'j loadOutput) \<times> string option" where
  "load get pathname cookie =
     (case get ''/base'' of
        Inl e \<Rightarrow> (Inl e, cookie)
      | Inr b \<Rightarrow>
          (if truthy cookie then
             (case get ''/user'' of
                Inr r \<Rightarrow>
                  (Inr \<lparr>out_status = None, out_redirect = None, out_error = None,
                        out_props = \<lparr>response = Some r, baseSettings = b\<rparr>,
                        out_stuff = Some r\<rparr>, cookie)
              | Inl error \<Rightarrow> load_catch pathname b error cookie)
           else if pathname \<noteq> ''/login'' \<and> pathname \<noteq> ''/register''
             then (Inr (redirectToLogin b), cookie)
           else (Inr (plainProps b), cookie)))"


section \<open>The store and the world around the route handlers\<close>

text \<open>
  The rows of the tables the handlers touch, with the columns the handlers name. A
  nullable column is an \<open>option\<close>.
\<close>

record setting =
  setting_id :: string
  fqdn :: "string option"
  doNotTrack :: bool
  isRegistrationEnabled :: bool
  dualCerts :: bool
  isAutoUpdateEnabled :: bool
  isDNSCheckEnabled :: bool
  DNSServers :: "string option"
  isAPIDebuggingEnabled :: bool
  proxyDefaultRedirect :: "string option"
  minPort :: int
  maxPort :: int

record sshKey =
  key_id :: string
  key_name :: string
  key_privateKey :: string
  key_createdAt :: nat
  key_teamId :: string

record certificate =
  cert_id :: string
  cert_cert :: string
  cert_createdAt :: nat
  cert_teamId :: string

record dockerRegistry =
  reg_id :: string
  reg_name :: string
  reg_url :: string
  reg_username :: "string option"
  reg_password :: "string option"
  reg_isSystemWide :: bool
  reg_teamId :: string

record application =
  app_id :: string
  app_dockerRegistryId :: string

text \<open>
  The world a handler runs in: the five tables, and what else it reaches: the proxy
  container's shell (\<open>asyncExecShell\<close>), the resolver's server list (\<open>dns.setServers\<close>),
  Sentry and the console. Every awaited call to the store or the shell may reject;
  \<open>faults\<close> is the schedule of these outcomes, one entry per call in the order the calls
  are made (\<open>None\<close>: the call goes through, \<open>Some e\<close>: it rejects with \<open>e\<close> and changes
  nothing; past the end of the schedule every call goes through).
\<close>

record world =
  db_setting :: "setting list"
  db_sshKey :: "sshKey list"
  db_certificate :: "certificate list"
  db_dockerRegistry :: "dockerRegistry list"
  db_application :: "application list"
  faults :: "exn option list"
  idCounter :: nat
  now :: nat
  shell :: "string list"
  dnsServers :: "string list"
  sentry :: bool
  console :: "string list"

type_synonym 'a io = "world \<Rightarrow> (exn + 'a) \<times> world"

definition returnM :: "'a \<Rightarrow> 'a io" where
  "returnM x = (\<lambda>w. (Inr x, w))"

definition throwM :: "exn \<Rightarrow> 'a io" where
  "throwM e = (\<lambda>w. (Inl e, w))"

definition bindM :: "'a io \<Rightarrow> ('a \<Rightarrow> 'b io) \<Rightarrow> 'b io" where
  \<comment> \<open>sequencing: a throw skips the rest\<close>
  "bindM m f = (\<lambda>w. case m w of (Inl e, w') \<Rightarrow> (Inl e, w') | (Inr x, w') \<Rightarrow> f x w')"

definition tryCatch :: "'a io \<Rightarrow> (exn \<Rightarrow> 'a io) \<Rightarrow> 'a io" where
  \<comment> \<open>\<open>try { m } catch (e) { h e }\<close>\<close>
  "tryCatch m h = (\<lambda>w. case m w of (Inl e, w') \<Rightarrow> h e w' | (Inr x, w') \<Rightarrow> (Inr x, w'))"

definition liftE :: "exn + 'a \<Rightarrow> 'a io" where
  \<comment> \<open>a call that returns or throws and leaves the world alone\<close>
  "liftE r = (\<lambda>w. (r, w))"

definition whenM :: "bool \<Rightarrow> unit io \<Rightarrow> unit io" where
  \<comment> \<open>\<open>if (b) { m }\<close>\<close>
  "whenM b m = (if b then m else returnM ())"

definition external :: "unit io" where
  \<comment> \<open>the outcome of the next awaited call, read off the schedule\<close>
  "external w =
     (case faults w of
        [] \<Rightarrow> (Inr (), w)
      | None # fs \<Rightarrow> (Inr (), w\<lparr>faults := fs\<rparr>)
      | Some e # fs \<Rightarrow> (Inl e, w\<lparr>faults := fs\<rparr>))"

fun mapE :: "('a \<Rightarrow> exn + 'b) \<Rightarrow> 'a list \<Rightarrow> exn + 'b list" where
  \<comment> \<open>a loop (or \<open>Array.map\<close>) whose body may throw: the first throw ends it\<close>
  "mapE f [] = Inr []"
| "mapE f (x # xs) =
     (case f x of
        Inl e \<Rightarrow> Inl e
      | Inr y \<Rightarrow> (case mapE f xs of Inl e \<Rightarrow> Inl e | Inr ys \<Rightarrow> Inr (y # ys)))"

subsection \<open>The object-relational mapper's calls\<close>

text \<open>
  A table is addressed by its getter and setter on the world. \<open>findMany\<close> returns the
  matching rows in the table's order; \<open>deleteMany\<close> and \<open>updateMany\<close> act on every
  matching row and accept that none matches; \<open>update\<close> addresses a row by a unique
  column and rejects with \<open>notFound\<close> when no row matches; \<open>create\<close> appends the row
  built from a generated id and the current time.
\<close>

definition findMany :: "(world \<Rightarrow> 'r list) \<Rightarrow> ('r \<Rightarrow> bool) \<Rightarrow> 'r list io" where
  "findMany tbl P = bindM external (\<lambda>_ w. (Inr (filter P (tbl w)), w))"

definition deleteMany ::
  "(world \<Rightarrow> 'r list) \<Rightarrow> ('r list \<Rightarrow> world \<Rightarrow> world) \<Rightarrow> ('r \<Rightarrow> bool) \<Rightarrow> unit io" where
  "deleteMany tbl put P =
     bindM external (\<lambda>_ w. (Inr (), put (filter (\<lambda>r. \<not> P r) (tbl w)) w))"

definition updateMany ::
  "(world \<Rightarrow> 'r list) \<Rightarrow> ('r list \<Rightarrow> world \<Rightarrow> world) \<Rightarrow> ('r \<Rightarrow> bool) \<Rightarrow> ('r \<Rightarrow> 'r)
     \<Rightarrow> unit io" where
  "updateMany tbl put P f =
     bindM external (\<lambda>_ w. (Inr (), put (map (\<lambda>r. if P r then f r else r) (tbl w)) w))"

definition update ::
  "exn \<Rightarrow> (world \<Rightarrow> 'r list) \<Rightarrow> ('r list \<Rightarrow> world \<Rightarrow> world) \<Rightarrow> ('r \<Rightarrow> bool)
     \<Rightarrow> ('r \<Rightarrow> 'r) \<Rightarrow> unit io" where
  "update notFound tbl put P f =
     bindM external (\<lambda>_ w.
       if list_ex P (tbl w)
       then (Inr (), put (map (\<lambda>r. if P r then f r else r) (tbl w)) w)
       else (Inl notFound, w))"

definition create ::
  "(nat \<Rightarrow> string) \<Rightarrow> (world \<Rightarrow> 'r list) \<Rightarrow> ('r list \<Rightarrow> world \<Rightarrow> world)
     \<Rightarrow> (string \<Rightarrow> nat \<Rightarrow> 'r) \<Rightarrow> unit io" where
  "create newId tbl put mk =
     bindM external (\<lambda>_ w.
       (Inr (), (put (tbl w @ [mk (newId (idCounter w)) (now w)]) w)
                  \<lparr>idCounter := idCounter w + 1\<rparr>))"

definition put_setting :: "setting list \<Rightarrow> world \<Rightarrow> world" where
  "put_setting rows w = w\<lparr>db_setting := rows\<rparr>"

definition put_sshKey :: "sshKey list \<Rightarrow> world \<Rightarrow> world" where
  "put_sshKey rows w = w\<lparr>db_sshKey := rows\<rparr>"

definition put_certificate :: "certificate list \<Rightarrow> world \<Rightarrow> world" where
  "put_certificate rows w = w\<lparr>db_certificate := rows\<rparr>"

definition put_dockerRegistry :: "dockerRegistry list \<Rightarrow> world \<Rightarrow> world" where
  "put_dockerRegistry rows w = w\<lparr>db_dockerRegistry := rows\<rparr>"

definition put_application :: "application list \<Rightarrow> world \<Rightarrow> world" where
  "put_application rows w = w\<lparr>db_application := rows\<rparr>"

definition asyncExecShell :: "string \<Rightarrow> unit io" where
  "asyncExecShell cmd = bindM external (\<lambda>_ w. (Inr (), w\<lparr>shell := shell w @ [cmd]\<rparr>))"

subsection \<open>What the handlers import\<close>

text \<open>
  The helpers of \<open>lib/common\<close> and of the libraries are parameters of the model: each
  returns a value or throws, and reads the world without changing it. \<open>errorHandler\<close>
  is given the status and message of a caught value; what it returns the handler
  returns, and what it throws the handler throws. \<open>toLowerCase\<close> is
  \<open>String.prototype.toLowerCase\<close>. \<open>listSettings\<close> picks the settings row out of the
  table (or \<open>null\<close>); \<open>x509_subject\<close> is the subject of \<open>new X509Certificate(cert)\<close>;
  \<open>cuid\<close> is the store's generator of ids; \<open>recordNotFound\<close> is what the mapper rejects
  with when \<open>update\<close> finds no row.
\<close>

record ('d, 'h) env =
  errorHandler :: "int option \<Rightarrow> string option \<Rightarrow> exn + 'h"
  isDev :: bool
  toLowerCase :: "string \<Rightarrow> string"
  encrypt :: "string \<Rightarrow> exn + string"
  decrypt :: "string \<Rightarrow> exn + string"
  listSettings :: "setting list \<Rightarrow> setting option"
  isDomainConfigured :: "world \<Rightarrow> string \<Rightarrow> string option \<Rightarrow> exn + bool"
  checkDomainsIsValidInDNS :: "world \<Rightarrow> string \<Rightarrow> string option \<Rightarrow> bool \<Rightarrow> exn + 'd"
  isDNSValid :: "world \<Rightarrow> string \<Rightarrow> string \<Rightarrow> exn + unit"
  dns_resolve :: "world \<Rightarrow> string \<Rightarrow> exn + string list"
  dns_setServers :: "string list \<Rightarrow> exn option"
  x509_subject :: "string \<Rightarrow> exn + string"
  cuid :: "nat \<Rightarrow> string"
  recordNotFound :: exn

definition awaitListSettings :: "('d, 'h) env \<Rightarrow> setting option io" where
  \<comment> \<open>\<open>await listSettings()\<close>\<close>
  "awaitListSettings env = bindM external (\<lambda>_ w. (Inr (listSettings env (db_setting w)), w))"

definition reading :: "(world \<Rightarrow> exn + 'a) \<Rightarrow> 'a io" where
  \<comment> \<open>an awaited helper that reads the world\<close>
  "reading f = (\<lambda>w. (f w, w))"

section \<open>The route handlers of the settings area\<close>

text \<open>What a handler returns.\<close>

record sshKeyOut =
  o_id :: string
  o_name :: string
  o_privateKey :: string
  o_createdAt :: nat

record certificateOut =
  commonName :: string
  c_id :: string
  c_createdAt :: nat

record registriesOut =
  reg_public :: "dockerRegistry list"
  reg_private :: "dockerRegistry list"

record allSettings =
  settings :: "setting option"
  certificates :: "certificateOut list"
  sshKeys :: "sshKeyOut list"
  registries :: registriesOut

datatype ('d, 'h) reply =
    Json allSettings \<comment> \<open>the object \<open>listAllSettings\<close> returns\<close>
  | EmptyObject \<comment> \<open>\<open>return {}\<close>\<close>
  | Value 'd \<comment> \<open>what \<open>checkDomainsIsValidInDNS\<close> returned\<close>
  | Send nat \<comment> \<open>\<open>reply.code(n).send()\<close>\<close>
  | Redirect nat "string option" \<comment> \<open>\<open>reply.redirect(n, url)\<close>\<close>
  | Handled 'h \<comment> \<open>what \<open>errorHandler\<close> returned\<close>

definition catchErrorHandler :: "('d, 'h) env \<Rightarrow> exn \<Rightarrow> ('d, 'h) reply io" where
  \<comment> \<open>\<open>catch ({ status, message }) { return errorHandler({ status, message }) }\<close>: the
      pattern throws on \<open>undefined\<close> and \<open>null\<close>, and a throw of \<open>errorHandler\<close> is not
      caught\<close>
  "catchErrorHandler env e =
     (case e of
        Undefined \<Rightarrow>
          throwM (TypeError
            ''Cannot destructure property 'status' of 'undefined' as it is undefined.'')
      | Null \<Rightarrow>
          throwM (TypeError ''Cannot destructure property 'status' of 'null' as it is null.'')
      | Obj t \<Rightarrow>
          (case errorHandler env (status t) (message t) of
             Inl e' \<Rightarrow> throwM e'
           | Inr h \<Rightarrow> returnM (Handled h)))"

subsection \<open>listAllSettings\<close>

definition decryptPassword :: "('d, 'h) env \<Rightarrow> dockerRegistry \<Rightarrow> exn + dockerRegistry" where
  "decryptPassword env registry =
     (case reg_password registry of
        None \<Rightarrow> Inr registry
      | Some p \<Rightarrow>
          if p = [] then Inr registry
          else (case decrypt env p of
                  Inl e \<Rightarrow> Inl e
                | Inr d \<Rightarrow> Inr (registry\<lparr>reg_password := Some d\<rparr>)))"

definition unencryptedKey :: "('d, 'h) env \<Rightarrow> sshKey \<Rightarrow> exn + sshKeyOut" where
  "unencryptedKey env key =
     (case decrypt env (key_privateKey key) of
        Inl e \<Rightarrow> Inl e
      | Inr d \<Rightarrow>
          Inr \<lparr>o_id = key_id key, o_name = key_name key, o_privateKey = d,
               o_createdAt = key_createdAt key\<rparr>)"

definition cnOf :: "('d, 'h) env \<Rightarrow> certificate \<Rightarrow> exn + certificateOut" where
  \<comment> \<open>the body of the loop over the certificates; \<open>find\<close> gives \<open>undefined\<close> when no line
      starts with \<open>CN=\<close>, and \<open>.replace\<close> on it is a TypeError\<close>
  "cnOf env certificate =
     (case x509_subject env (cert_cert certificate) of
        Inl e \<Rightarrow> Inl e
      | Inr subject \<Rightarrow>
          (case find (startsWith ''CN='') (split (CHR 0x0A) subject) of
             None \<Rightarrow> Inl (TypeError ''Cannot read properties of undefined (reading 'replace')'')
           | Some s \<Rightarrow>
               Inr \<lparr>commonName = replace ''CN='' [] s, c_id = cert_id certificate,
                    c_createdAt = cert_createdAt certificate\<rparr>))"

definition listAllSettings_try :: "('d, 'h) env \<Rightarrow> string \<Rightarrow> ('d, 'h) reply io" where
  "listAllSettings_try env teamId =
     bindM (awaitListSettings env) (\<lambda>settings.
     bindM (findMany db_sshKey (\<lambda>k. key_teamId k = teamId)) (\<lambda>sshKeys.
     bindM (findMany db_dockerRegistry (\<lambda>r. reg_isSystemWide r)) (\<lambda>publicRegistries.
     bindM (findMany db_dockerRegistry (\<lambda>r. reg_teamId r = teamId \<and> \<not> reg_isSystemWide r))
       (\<lambda>privateRegistries.
     bindM (liftE (mapE (decryptPassword env) publicRegistries)) (\<lambda>publicRegistries.
     bindM (liftE (mapE (decryptPassword env) privateRegistries)) (\<lambda>privateRegistries.
     bindM (liftE (mapE (unencryptedKey env) sshKeys)) (\<lambda>unencryptedKeys.
     bindM (findMany db_certificate (\<lambda>c. cert_teamId c = teamId)) (\<lambda>certificates.
     bindM (liftE (mapE (cnOf env) certificates)) (\<lambda>cns.
     returnM (Json \<lparr>settings = settings, certificates = cns, sshKeys = unencryptedKeys,
                    registries = \<lparr>reg_public = publicRegistries,
                                   reg_private = privateRegistries\<rparr>\<rparr>))))))))))"

definition listAllSettings :: "('d, 'h) env \<Rightarrow> string \<Rightarrow> ('d, 'h) reply io" where
  "listAllSettings env teamId = tryCatch (listAllSettings_try env teamId) (catchErrorHandler env)"

subsection \<open>saveSettings\<close>

text \<open>
  The request body. A property the client left out is \<open>None\<close>; the mapper leaves a column
  alone when the value given for it is \<open>undefined\<close>.
\<close>

record SaveSettings =
  b_doNotTrack :: "bool option"
  b_fqdn :: "string option"
  b_isAPIDebuggingEnabled :: "bool option"
  b_isRegistrationEnabled :: "bool option"
  b_dualCerts :: "bool option"
  b_minPort :: "int option"
  b_maxPort :: "int option"
  b_isAutoUpdateEnabled :: "bool option"
  b_isDNSCheckEnabled :: "bool option"
  b_DNSServers :: "string option"
  b_proxyDefaultRedirect :: "string option"

definition orKeep :: "'a option \<Rightarrow> 'a \<Rightarrow> 'a" where
  "orKeep v old = (case v of None \<Rightarrow> old | Some x \<Rightarrow> x)"

definition orKeepNullable :: "'a option \<Rightarrow> 'a option \<Rightarrow> 'a option" where
  "orKeepNullable v old = (case v of None \<Rightarrow> old | Some x \<Rightarrow> Some x)"

definition flagsData :: "SaveSettings \<Rightarrow> setting \<Rightarrow> setting" where
  \<comment> \<open>\<open>data: { doNotTrack, isRegistrationEnabled, dualCerts, isAutoUpdateEnabled,
      isDNSCheckEnabled, DNSServers, isAPIDebuggingEnabled }\<close>\<close>
  "flagsData body s =
     s\<lparr>doNotTrack := orKeep (b_doNotTrack body) (doNotTrack s),
       isRegistrationEnabled := orKeep (b_isRegistrationEnabled body) (isRegistrationEnabled s),
       dualCerts := orKeep (b_dualCerts body) (dualCerts s),
       isAutoUpdateEnabled := orKeep (b_isAutoUpdateEnabled body) (isAutoUpdateEnabled s),
       isDNSCheckEnabled := orKeep (b_isDNSCheckEnabled body) (isDNSCheckEnabled s),
       DNSServers := orKeepNullable (b_DNSServers body) (DNSServers s),
       isAPIDebuggingEnabled := orKeep (b_isAPIDebuggingEnabled body) (isAPIDebuggingEnabled s)\<rparr>"

definition fqdnData :: "SaveSettings \<Rightarrow> setting \<Rightarrow> setting" where
  \<comment> \<open>\<open>data: { fqdn }\<close>\<close>
  "fqdnData body s = s\<lparr>fqdn := orKeepNullable (b_fqdn body) (fqdn s)\<rparr>"

definition redirectData :: "SaveSettings \<Rightarrow> setting \<Rightarrow> setting" where
  \<comment> \<open>\<open>data: { proxyDefaultRedirect }\<close>\<close>
  "redirectData body s =
     s\<lparr>proxyDefaultRedirect :=
         orKeepNullable (b_proxyDefaultRedirect body) (proxyDefaultRedirect s)\<rparr>"

definition portsData :: "SaveSettings \<Rightarrow> setting \<Rightarrow> setting" where
  \<comment> \<open>\<open>data: { minPort, maxPort }\<close>\<close>
  "portsData body s =
     s\<lparr>minPort := orKeep (b_minPort body) (minPort s),
       maxPort := orKeep (b_maxPort body) (maxPort s)\<rparr>"

definition truthyNumber :: "int option \<Rightarrow> bool" where
  \<comment> \<open>a number that may be undefined, as a condition: false for undefined and for 0\<close>
  "truthyNumber n = (case n of None \<Rightarrow> False | Some v \<Rightarrow> v \<noteq> 0)"

definition sentryInit :: "unit io" where
  \<comment> \<open>\<open>Sentry.init({...}); console.log('Sentry initialized')\<close>\<close>
  "sentryInit w = (Inr (), w\<lparr>sentry := True, console := console w @ [''Sentry initialized'']\<rparr>)"

definition updateSetting ::
  "('d, 'h) env \<Rightarrow> string \<Rightarrow> (setting \<Rightarrow> setting) \<Rightarrow> unit io" where
  \<comment> \<open>\<open>prisma.setting.update({ where: { id }, data })\<close>\<close>
  "updateSetting env id' data =
     update (recordNotFound env) db_setting put_setting (\<lambda>r. setting_id r = id') data"

definition saveSettings_try :: "('d, 'h) env \<Rightarrow> SaveSettings \<Rightarrow> ('d, 'h) reply io" where
  "saveSettings_try env body =
     bindM (awaitListSettings env) (\<lambda>row.
       case row of
         None \<Rightarrow>
           throwM (TypeError
             ''Cannot destructure property 'id' of '(intermediate value)' as it is null.'')
       | Some s \<Rightarrow>
           bindM (updateSetting env (setting_id s) (flagsData body)) (\<lambda>_.
           bindM (whenM (truthy (b_fqdn body))
                    (updateSetting env (setting_id s) (fqdnData body))) (\<lambda>_.
           bindM (updateSetting env (setting_id s) (redirectData body)) (\<lambda>_.
           bindM (whenM (truthyNumber (b_minPort body) \<and> truthyNumber (b_maxPort body))
                    (updateSetting env (setting_id s) (portsData body))) (\<lambda>_.
           bindM (whenM (b_doNotTrack body = Some False) sentryInit) (\<lambda>_.
           returnM (Send 201)))))))"

definition saveSettings :: "('d, 'h) env \<Rightarrow> SaveSettings \<Rightarrow> ('d, 'h) reply io" where
  "saveSettings env body = tryCatch (saveSettings_try env body) (catchErrorHandler env)"

subsection \<open>deleteDomain, checkDomain, checkDNS\<close>

definition setServers :: "('d, 'h) env \<Rightarrow> string list \<Rightarrow> unit io" where
  \<comment> \<open>\<open>dns.setServers(servers)\<close>: throws on a malformed address\<close>
  "setServers env servers w =
     (case dns_setServers env servers of
        Some e \<Rightarrow> (Inl e, w)
      | None \<Rightarrow> (Inr (), w\<lparr>dnsServers := servers\<rparr>))"

definition settingsUrl :: "string list \<Rightarrow> string" where
  \<comment> \<open>\<open>`http://${ip[0]}:3000/settings`\<close>; \<open>ip[0]\<close> of an empty array prints as \<open>undefined\<close>\<close>
  "settingsUrl ip =
     ''http://'' @ (case ip of [] \<Rightarrow> ''undefined'' | a # _ \<Rightarrow> a) @ '':3000/settings''"

definition deleteDomain_try :: "('d, 'h) env \<Rightarrow> string \<Rightarrow> ('d, 'h) reply io" where
  "deleteDomain_try env fqdn' =
     bindM (awaitListSettings env) (\<lambda>row.
       case row of
         None \<Rightarrow>
           throwM (TypeError
             ''Cannot destructure property 'DNSServers' of '(intermediate value)' as it is null.'')
       | Some s \<Rightarrow>
           bindM (whenM (truthy (DNSServers s))
                    (setServers env (split (CHR '','') (case DNSServers s of None \<Rightarrow> [] | Some v \<Rightarrow> v))))
             (\<lambda>_.
           bindM (tryCatch (bindM (reading (\<lambda>w. dns_resolve env w fqdn')) (\<lambda>ip. returnM (Some ip)))
                    (\<lambda>error. returnM None)) (\<lambda>ip.
           bindM (update (recordNotFound env) db_setting put_setting (\<lambda>r. fqdn r = Some fqdn')
                    (\<lambda>r. r\<lparr>fqdn := None\<rparr>)) (\<lambda>_.
           returnM (Redirect 302 (map_option settingsUrl ip))))))"

definition deleteDomain :: "('d, 'h) env \<Rightarrow> string \<Rightarrow> ('d, 'h) reply io" where
  "deleteDomain env fqdn' = tryCatch (deleteDomain_try env fqdn') (catchErrorHandler env)"

record CheckDomain =
  cd_fqdn :: "string option"
  cd_forceSave :: bool
  cd_dualCerts :: bool
  cd_isDNSCheckEnabled :: bool

definition firstPart :: "string \<Rightarrow> string" where
  \<comment> \<open>\<open>request.hostname.split(':')[0]\<close>\<close>
  "firstPart hostname = (case split (CHR '':'') hostname of [] \<Rightarrow> [] | h # _ \<Rightarrow> h)"

definition checkDomain_try ::
  "('d, 'h) env \<Rightarrow> string \<Rightarrow> string \<Rightarrow> CheckDomain \<Rightarrow> ('d, 'h) reply io" where
  "checkDomain_try env hostname id' body =
     (let fqdn' = (if truthy (cd_fqdn body) then map_option (toLowerCase env) (cd_fqdn body)
                   else cd_fqdn body)
      in bindM (reading (\<lambda>w. isDomainConfigured env w id' fqdn')) (\<lambda>found.
           if found
           then throwM (Obj \<lparr>status = None, message = Some ''Domain already configured'',
                             code = None\<rparr>)
           else if cd_isDNSCheckEnabled body \<and> \<not> cd_forceSave body \<and> \<not> isDev env
           then bindM (reading (\<lambda>w. checkDomainsIsValidInDNS env w (firstPart hostname) fqdn'
                                        (cd_dualCerts body)))
                  (\<lambda>v. returnM (Value v))
           else returnM EmptyObject))"

definition checkDomain ::
  "('d, 'h) env \<Rightarrow> string \<Rightarrow> string \<Rightarrow> CheckDomain \<Rightarrow> ('d, 'h) reply io" where
  "checkDomain env hostname id' body =
     tryCatch (checkDomain_try env hostname id' body) (catchErrorHandler env)"

definition checkDNS_try :: "('d, 'h) env \<Rightarrow> string \<Rightarrow> string \<Rightarrow> ('d, 'h) reply io" where
  "checkDNS_try env hostname domain =
     bindM (reading (\<lambda>w. isDNSValid env w hostname domain)) (\<lambda>_. returnM EmptyObject)"

definition checkDNS :: "('d, 'h) env \<Rightarrow> string \<Rightarrow> string \<Rightarrow> ('d, 'h) reply io" where
  "checkDNS env hostname domain =
     tryCatch (checkDNS_try env hostname domain) (catchErrorHandler env)"

subsection \<open>SSH keys and certificates\<close>

definition saveSSHKey_try ::
  "('d, 'h) env \<Rightarrow> string \<Rightarrow> string \<Rightarrow> string \<Rightarrow> ('d, 'h) reply io" where
  "saveSSHKey_try env teamId privateKey name =
     bindM (findMany db_sshKey (\<lambda>k. key_name k = name)) (\<lambda>found.
       if length found > 0
       then throwM (Obj \<lparr>status = None,
                         message = Some ''Name already used. Choose another one please.'',
                         code = None\<rparr>)
       else bindM (liftE (encrypt env privateKey)) (\<lambda>encryptedSSHKey.
            bindM (create (cuid env) db_sshKey put_sshKey
                     (\<lambda>i t. \<lparr>key_id = i, key_name = name, key_privateKey = encryptedSSHKey,
                             key_createdAt = t, key_teamId = teamId\<rparr>)) (\<lambda>_.
            returnM (Send 201))))"

definition saveSSHKey ::
  "('d, 'h) env \<Rightarrow> string \<Rightarrow> string \<Rightarrow> string \<Rightarrow> ('d, 'h) reply io" where
  "saveSSHKey env teamId privateKey name =
     tryCatch (saveSSHKey_try env teamId privateKey name) (catchErrorHandler env)"

definition deleteSSHKey_try :: "('d, 'h) env \<Rightarrow> string \<Rightarrow> string \<Rightarrow> ('d, 'h) reply io" where
  "deleteSSHKey_try env teamId id' =
     bindM (deleteMany db_sshKey put_sshKey (\<lambda>k. key_id k = id' \<and> key_teamId k = teamId))
       (\<lambda>_. returnM (Send 201))"

definition deleteSSHKey :: "('d, 'h) env \<Rightarrow> string \<Rightarrow> string \<Rightarrow> ('d, 'h) reply io" where
  "deleteSSHKey env teamId id' =
     tryCatch (deleteSSHKey_try env teamId id') (catchErrorHandler env)"

definition removeCertFiles :: "string \<Rightarrow> string" where
  \<comment> \<open>the shell command that removes the key and certificate files of \<open>id\<close> in the proxy\<close>
  "removeCertFiles id' =
     ''docker exec coolify-proxy sh -c '' @ [CHR 0x27] @ ''rm -f /etc/traefik/acme/custom/''
       @ id' @ ''-key.pem /etc/traefik/acme/custom/'' @ id' @ ''-cert.pem'' @ [CHR 0x27]"

definition deleteCertificates_try ::
  "('d, 'h) env \<Rightarrow> string \<Rightarrow> string \<Rightarrow> ('d, 'h) reply io" where
  "deleteCertificates_try env teamId id' =
     bindM (asyncExecShell (removeCertFiles id')) (\<lambda>_.
     bindM (deleteMany db_certificate put_certificate
              (\<lambda>c. cert_id c = id' \<and> cert_teamId c = teamId)) (\<lambda>_.
     returnM (Send 201)))"

definition deleteCertificates :: "('d, 'h) env \<Rightarrow> string \<Rightarrow> string \<Rightarrow> ('d, 'h) reply io" where
  "deleteCertificates env teamId id' =
     tryCatch (deleteCertificates_try env teamId id') (catchErrorHandler env)"

subsection \<open>Container registries\<close>

definition encryptIfGiven :: "('d, 'h) env \<Rightarrow> string option \<Rightarrow> exn + string" where
  \<comment> \<open>\<open>let encryptedPassword = ''; if (password) encryptedPassword = encrypt(password)\<close>\<close>
  "encryptIfGiven env password =
     (case password of None \<Rightarrow> Inr [] | Some p \<Rightarrow> if p = [] then Inr [] else encrypt env p)"

definition credentials :: "string option \<Rightarrow> string \<Rightarrow> dockerRegistry \<Rightarrow> dockerRegistry" where
  \<comment> \<open>\<open>data: { username, password: encryptedPassword }\<close>\<close>
  "credentials username encryptedPassword r =
     r\<lparr>reg_username := orKeepNullable username (reg_username r),
       reg_password := Some encryptedPassword\<rparr>"

definition setDockerRegistry_try ::
  "('d, 'h) env \<Rightarrow> string \<Rightarrow> string \<Rightarrow> string option \<Rightarrow> string option \<Rightarrow> ('d, 'h) reply io" where
  "setDockerRegistry_try env teamId id' username password =
     bindM (liftE (encryptIfGiven env password)) (\<lambda>encryptedPassword.
     bindM (if teamId = ''0''
            then update (recordNotFound env) db_dockerRegistry put_dockerRegistry
                   (\<lambda>r. reg_id r = id') (credentials username encryptedPassword)
            else updateMany db_dockerRegistry put_dockerRegistry
                   (\<lambda>r. reg_id r = id' \<and> reg_teamId r = teamId)
                   (credentials username encryptedPassword)) (\<lambda>_.
     returnM (Send 201)))"

definition setDockerRegistry ::
  "('d, 'h) env \<Rightarrow> string \<Rightarrow> string \<Rightarrow> string option \<Rightarrow> string option \<Rightarrow> ('d, 'h) reply io" where
  "setDockerRegistry env teamId id' username password =
     tryCatch (setDockerRegistry_try env teamId id' username password) (catchErrorHandler env)"

record AddDefaultRegistry =
  ar_name :: string
  ar_url :: string
  ar_username :: "string option"
  ar_password :: "string option"
  ar_isSystemWide :: bool

definition addDockerRegistry_try ::
  "('d, 'h) env \<Rightarrow> string \<Rightarrow> AddDefaultRegistry \<Rightarrow> ('d, 'h) reply io" where
  "addDockerRegistry_try env teamId body =
     bindM (liftE (encryptIfGiven env (ar_password body))) (\<lambda>encryptedPassword.
     bindM (create (cuid env) db_dockerRegistry put_dockerRegistry
              (\<lambda>i t. \<lparr>reg_id = i, reg_name = ar_name body, reg_url = ar_url body,
                      reg_username = ar_username body, reg_password = Some encryptedPassword,
                      reg_isSystemWide = ar_isSystemWide body, reg_teamId = teamId\<rparr>)) (\<lambda>_.
     returnM (Send 201)))"

definition addDockerRegistry ::
  "('d, 'h) env \<Rightarrow> string \<Rightarrow> AddDefaultRegistry \<Rightarrow> ('d, 'h) reply io" where
  "addDockerRegistry env teamId body =
     tryCatch (addDockerRegistry_try env teamId body) (catchErrorHandler env)"

definition deleteDockerRegistry_try ::
  "('d, 'h) env \<Rightarrow> string \<Rightarrow> string \<Rightarrow> ('d, 'h) reply io" where
  "deleteDockerRegistry_try env teamId id' =
     bindM (updateMany db_application put_application (\<lambda>a. app_dockerRegistryId a = id')
              (\<lambda>a. a\<lparr>app_dockerRegistryId := ''0''\<rparr>)) (\<lambda>_.
     bindM (deleteMany db_dockerRegistry put_dockerRegistry
              (\<lambda>r. reg_id r = id' \<and> reg_teamId r = teamId)) (\<lambda>_.
     returnM (Send 201)))"

definition deleteDockerRegistry ::
  "('d, 'h) env \<Rightarrow> string \<Rightarrow> string \<Rightarrow> ('d, 'h) reply io" where
  "deleteDockerRegistry env teamId id' =
     tryCatch (deleteDockerRegistry_try env teamId id') (catchErrorHandler env)"

subsection \<open>The routes together\<close>

datatype request =
    ListAllSettings string
  | SaveSettingsReq SaveSettings
  | DeleteDomain string
  | CheckDomainReq string string CheckDomain
  | CheckDNS string string
  | SaveSSHKey string string string
  | DeleteSSHKey string string
  | DeleteCertificates string string
  | SetDockerRegistry string string "string option" "string option"
  | AddDockerRegistry string AddDefaultRegistry
  | DeleteDockerRegistry string string

fun try_block :: "('d, 'h) env \<Rightarrow> request \<Rightarrow> ('d, 'h) reply io" where
  "try_block env (ListAllSettings teamId) = listAllSettings_try env teamId"
| "try_block env (SaveSettingsReq body) = saveSettings_try env body"
| "try_block env (DeleteDomain fqdn') = deleteDomain_try env fqdn'"
| "try_block env (CheckDomainReq hostname id' body) = checkDomain_try env hostname id' body"
| "try_block env (CheckDNS hostname domain) = checkDNS_try env hostname domain"
| "try_block env (SaveSSHKey teamId privateKey name) = saveSSHKey_try env teamId privateKey name"
| "try_block env (DeleteSSHKey teamId id') = deleteSSHKey_try env teamId id'"
| "try_block env (DeleteCertificates teamId id') = deleteCertificates_try env teamId id'"
| "try_block env (SetDockerRegistry teamId id' username password) =
     setDockerRegistry_try env teamId id' username password"
| "try_block env (AddDockerRegistry teamId body) = addDockerRegistry_try env teamId body"
| "try_block env (DeleteDockerRegistry teamId id') = deleteDockerRegistry_try env teamId id'"

fun handler :: "('d, 'h) env \<Rightarrow> request \<Rightarrow> ('d, 'h) reply io" where
  "handler env (ListAllSettings teamId) = listAllSettings env teamId"
| "handler env (SaveSettingsReq body) = saveSettings env body"
| "handler env (DeleteDomain fqdn') = deleteDomain env fqdn'"
| "handler env (CheckDomainReq hostname id' body) = checkDomain env hostname id' body"
| "handler env (CheckDNS hostname domain) = checkDNS env hostname domain"
| "handler env (SaveSSHKey teamId privateKey name) = saveSSHKey env teamId privateKey name"
| "handler env (DeleteSSHKey teamId id') = deleteSSHKey env teamId id'"
| "handler env (DeleteCertificates teamId id') = deleteCertificates env teamId id'"
| "handler env (SetDockerRegistry teamId id' username password) =
     setDockerRegistry env teamId id' username password"
| "handler env (AddDockerRegistry teamId body) = addDockerRegistry env teamId body"
| "handler env (DeleteDockerRegistry teamId id') = deleteDockerRegistry env teamId id'"

subsection \<open>The update calls of saveSettings, as a sequence\<close>

definition settingUpdates :: "SaveSettings \<Rightarrow> (setting \<Rightarrow> setting) list" where
  \<comment> \<open>the data of the update calls that \<open>saveSettings\<close> issues for a body, in its order\<close>
  "settingUpdates body =
     [flagsData body]
     @ (if truthy (b_fqdn body) then [fqdnData body] else [])
     @ [redirectData body]
     @ (if truthyNumber (b_minPort body) \<and> truthyNumber (b_maxPort body)
        then [portsData body] else [])"

fun applyAll :: "('d, 'h) env \<Rightarrow> string \<Rightarrow> (setting \<Rightarrow> setting) list \<Rightarrow> unit io" where
  \<comment> \<open>update calls on the row \<open>id\<close>, one after the other\<close>
  "applyAll env id' [] = returnM ()"
| "applyAll env id' (f # fs) = bindM (updateSetting env id' f) (\<lambda>_. applyAll env id' fs)"

subsection \<open>The normal results of the routes\<close>

fun normal_result :: "request \<Rightarrow> ('d, 'h) reply \<Rightarrow> bool" where
  \<comment> \<open>what each try block returns at its end: an object, a 201 reply, or the redirect of
      \<open>deleteDomain\<close>\<close>
  "normal_result (ListAllSettings _) (Json _) = True"
| "normal_result (CheckDomainReq _ _ _) EmptyObject = True"
| "normal_result (CheckDomainReq _ _ _) (Value _) = True"
| "normal_result (CheckDNS _ _) EmptyObject = True"
| "normal_result (DeleteDomain _) (Redirect n _) = (n = 302)"
| "normal_result (SaveSettingsReq _) (Send n) = (n = 201)"
| "normal_result (SaveSSHKey _ _ _) (Send n) = (n = 201)"
| "normal_result (DeleteSSHKey _ _) (Send n) = (n = 201)"
| "normal_result (DeleteCertificates _ _) (Send n) = (n = 201)"
| "normal_result (SetDockerRegistry _ _ _ _) (Send n) = (n = 201)"
| "normal_result (AddDockerRegistry _ _) (Send n) = (n = 201)"
| "normal_result (DeleteDockerRegistry _ _) (Send n) = (n = 201)"
| "normal_result _ _ = False"

section \<open>The steps of a handler that can throw\<close>

text \<open>
  A second account of the handlers, to compare them with: for each request, the steps of
  the handler's try block that can throw, in the order of the source, each with what it
  throws on the given input (\<open>None\<close>: it goes through). A step that is only reached when
  the earlier ones went through is listed all the same; the first throw is the one
  that counts. The \<open>dns.resolve\<close> of \<open>deleteDomain\<close> is not in the list: its throw is
  caught on the spot.
\<close>

definition nextFault :: "exn option list \<Rightarrow> exn option" where
  \<comment> \<open>what the next awaited call of the schedule is rejected with, if it is\<close>
  "nextFault fs = (case fs of Some e # _ \<Rightarrow> Some e | _ \<Rightarrow> None)"

definition rejection :: "nat \<Rightarrow> world \<Rightarrow> exn option" where
  \<comment> \<open>the same for the call after \<open>k\<close> others\<close>
  "rejection k w = nextFault (drop k (faults w))"

definition thrownBy :: "exn + 'a \<Rightarrow> exn option" where
  "thrownBy r = (case r of Inl e \<Rightarrow> Some e | Inr _ \<Rightarrow> None)"

fun firstThrown :: "exn option list \<Rightarrow> exn option" where
  "firstThrown [] = None"
| "firstThrown (None # xs) = firstThrown xs"
| "firstThrown (Some e # xs) = Some e"

definition passwordThrows :: "('d, 'h) env \<Rightarrow> dockerRegistry \<Rightarrow> exn option" where
  \<comment> \<open>\<open>if (registry.password) registry.password = decrypt(registry.password)\<close>\<close>
  "passwordThrows env r =
     (case reg_password r of
        None \<Rightarrow> None
      | Some p \<Rightarrow> if p = [] then None else thrownBy (decrypt env p))"

definition commonNameThrows :: "('d, 'h) env \<Rightarrow> certificate \<Rightarrow> exn option" where
  \<comment> \<open>parsing the certificate, then \<open>.replace\<close> on the line that \<open>find\<close> gave\<close>
  "commonNameThrows env c =
     (case x509_subject env (cert_cert c) of
        Inl e \<Rightarrow> Some e
      | Inr subject \<Rightarrow>
          if list_ex (startsWith ''CN='') (split (CHR 0x0A) subject) then None
          else Some (TypeError ''Cannot read properties of undefined (reading 'replace')''))"

definition encryptThrows :: "('d, 'h) env \<Rightarrow> string option \<Rightarrow> exn option" where
  \<comment> \<open>\<open>if (password) encryptedPassword = encrypt(password)\<close>\<close>
  "encryptThrows env password =
     (case password of
        None \<Rightarrow> None
      | Some p \<Rightarrow> if p = [] then None else thrownBy (encrypt env p))"

definition updateThrows :: "('d, 'h) env \<Rightarrow> bool \<Rightarrow> world \<Rightarrow> nat \<Rightarrow> exn option" where
  \<comment> \<open>an \<open>update\<close> as the call after \<open>k\<close> others: rejected by the schedule, or by the
      mapper when no row is found\<close>
  "updateThrows env found w k =
     (case rejection k w of
        Some e \<Rightarrow> Some e
      | None \<Rightarrow> if found then None else Some (recordNotFound env))"

fun steps :: "('d, 'h) env \<Rightarrow> request \<Rightarrow> world \<Rightarrow> exn option list" where
  "steps env (ListAllSettings teamId) w =
     [rejection 0 w, rejection 1 w, rejection 2 w, rejection 3 w]
     @ map (passwordThrows env) (filter reg_isSystemWide (db_dockerRegistry w))
     @ map (passwordThrows env)
         (filter (\<lambda>r. reg_teamId r = teamId \<and> \<not> reg_isSystemWide r) (db_dockerRegistry w))
     @ map (\<lambda>k. thrownBy (decrypt env (key_privateKey k)))
         (filter (\<lambda>k. key_teamId k = teamId) (db_sshKey w))
     @ [rejection 4 w]
     @ map (commonNameThrows env) (filter (\<lambda>c. cert_teamId c = teamId) (db_certificate w))"
| "steps env (SaveSettingsReq body) w =
     rejection 0 w #
     (case listSettings env (db_setting w) of
        None \<Rightarrow>
          [Some (TypeError
             ''Cannot destructure property 'id' of '(intermediate value)' as it is null.'')]
      | Some s \<Rightarrow>
          map (updateThrows env (list_ex (\<lambda>r. setting_id r = setting_id s) (db_setting w)) w)
            [1 ..< Suc (length (settingUpdates body))])"
| "steps env (DeleteDomain fqdn') w =
     rejection 0 w #
     (case listSettings env (db_setting w) of
        None \<Rightarrow>
          [Some (TypeError
             ''Cannot destructure property 'DNSServers' of '(intermediate value)' as it is null.'')]
      | Some s \<Rightarrow>
          [case DNSServers s of
             None \<Rightarrow> None
           | Some v \<Rightarrow> if v = [] then None else dns_setServers env (split (CHR '','') v),
           updateThrows env (list_ex (\<lambda>r. fqdn r = Some fqdn') (db_setting w)) w 1])"
| "steps env (CheckDomainReq hostname id' body) w =
     (let fqdn' = map_option (\<lambda>v. if v = [] then v else toLowerCase env v) (cd_fqdn body)
      in [thrownBy (isDomainConfigured env w id' fqdn'),
          if isDomainConfigured env w id' fqdn' = Inr True
          then Some (Obj \<lparr>status = None, message = Some ''Domain already configured'',
                           code = None\<rparr>)
          else None,
          if cd_isDNSCheckEnabled body \<and> \<not> cd_forceSave body \<and> \<not> isDev env
          then thrownBy (checkDomainsIsValidInDNS env w
                           (takeWhile (\<lambda>c. c \<noteq> CHR '':'') hostname) fqdn' (cd_dualCerts body))
          else None])"
| "steps env (CheckDNS hostname domain) w = [thrownBy (isDNSValid env w hostname domain)]"
| "steps env (SaveSSHKey teamId privateKey name) w =
     [rejection 0 w,
      if list_ex (\<lambda>k. key_name k = name) (db_sshKey w)
      then Some (Obj \<lparr>status = None,
                       message = Some ''Name already used. Choose another one please.'',
                       code = None\<rparr>)
      else None,
      thrownBy (encrypt env privateKey),
      rejection 1 w]"
| "steps env (DeleteSSHKey teamId id') w = [rejection 0 w]"
| "steps env (DeleteCertificates teamId id') w = [rejection 0 w, rejection 1 w]"
| "steps env (SetDockerRegistry teamId id' username password) w =
     [encryptThrows env password,
      updateThrows env
        (teamId \<noteq> ''0'' \<or> list_ex (\<lambda>r. reg_id r = id') (db_dockerRegistry w)) w 0]"
| "steps env (AddDockerRegistry teamId body) w =
     [encryptThrows env (ar_password body), rejection 0 w]"
| "steps env (DeleteDockerRegistry teamId id') w = [rejection 0 w, rejection 1 w]"

fun passing :: "nat \<Rightarrow> exn option list \<Rightarrow> nat" where
  \<comment> \<open>how many of the next \<open>n\<close> calls go through before the schedule rejects one\<close>
  "passing 0 fs = 0"
| "passing (Suc n) [] = Suc n"
| "passing (Suc n) (None # fs) = Suc (passing n fs)"
| "passing (Suc n) (Some e # fs) = 0"

section \<open>A sample installation\<close>

text \<open>
  A concrete environment and store, to run the handlers on. The sample \<open>errorHandler\<close>
  returns the pair it was given; the sample \<open>toLowerCase\<close> lowers the letters A to Z; the
  sample cipher reverses the text; the subject of a sample certificate is its text; the
  sample resolver finds no address.
\<close>

definition asciiLower :: "string \<Rightarrow> string" where
  "asciiLower s =
     map (\<lambda>c. case map_of (zip ''ABCDEFGHIJKLMNOPQRSTUVWXYZ'' ''abcdefghijklmnopqrstuvwxyz'') c of
                None \<Rightarrow> c
              | Some l \<Rightarrow> l) s"

definition env0 :: "(string, int option \<times> string option) env" where
  "env0 =
     \<lparr>errorHandler = (\<lambda>s m. Inr (s, m)),
      isDev = False,
      toLowerCase = asciiLower,
      encrypt = (\<lambda>p. Inr (rev p)),
      decrypt = (\<lambda>c. Inr (rev c)),
      listSettings = (\<lambda>rows. case rows of [] \<Rightarrow> None | s # _ \<Rightarrow> Some s),
      isDomainConfigured = (\<lambda>w i f. Inr (f \<noteq> None \<and> list_ex (\<lambda>s. fqdn s = f) (db_setting w))),
      checkDomainsIsValidInDNS = (\<lambda>w h f d. Inr h),
      isDNSValid = (\<lambda>w h d. Inr ()),
      dns_resolve = (\<lambda>w d. Inl (Obj \<lparr>status = None, message = Some ''queryA ENOTFOUND'',
                                      code = Some ''ENOTFOUND''\<rparr>)),
      dns_setServers = (\<lambda>servers. None),
      x509_subject = (\<lambda>cert. Inr cert),
      cuid = (\<lambda>n. replicate (Suc n) (CHR ''c'')),
      recordNotFound = Obj \<lparr>status = None, message = Some ''Record to update not found.'',
                            code = Some ''P2025''\<rparr>\<rparr>"

definition setting0 :: setting where
  "setting0 =
     \<lparr>setting_id = ''s0'', fqdn = Some ''coolify.example.com'', doNotTrack = False,
      isRegistrationEnabled = False, dualCerts = False, isAutoUpdateEnabled = False,
      isDNSCheckEnabled = True, DNSServers = None, isAPIDebuggingEnabled = False,
      proxyDefaultRedirect = None, minPort = 9000, maxPort = 9100\<rparr>"

definition world0 :: world where
  "world0 =
     \<lparr>db_setting = [setting0],
      db_sshKey =
        [\<lparr>key_id = ''k1'', key_name = ''deploy'', key_privateKey = ''TERCES'',
          key_createdAt = 1, key_teamId = ''1''\<rparr>],
      db_certificate =
        [\<lparr>cert_id = ''c1'', cert_cert = ''C=DE'' @ [CHR 0x0A] @ ''CN=example.com'',
          cert_createdAt = 2, cert_teamId = ''1''\<rparr>,
         \<lparr>cert_id = ''c2'', cert_cert = ''O=Acme'', cert_createdAt = 3, cert_teamId = ''2''\<rparr>],
      db_dockerRegistry =
        [\<lparr>reg_id = ''0'', reg_name = ''Docker Hub'', reg_url = ''https://index.docker.io/v1/'',
          reg_username = None, reg_password = None, reg_isSystemWide = True,
          reg_teamId = ''0''\<rparr>,
         \<lparr>reg_id = ''r1'', reg_name = ''private'', reg_url = ''https://registry.example.com'',
          reg_username = Some ''bot'', reg_password = Some ''drowssap'', reg_isSystemWide = False,
          reg_teamId = ''2''\<rparr>,
         \<lparr>reg_id = ''r2'', reg_name = ''packages'', reg_url = ''https://ghcr.io'',
          reg_username = Some ''ci'', reg_password = Some ''nekot'', reg_isSystemWide = False,
          reg_teamId = ''1''\<rparr>],
      db_application =
        [\<lparr>app_id = ''a1'', app_dockerRegistryId = ''0''\<rparr>,
         \<lparr>app_id = ''a2'', app_dockerRegistryId = ''r1''\<rparr>],
      faults = [], idCounter = 0, now = 100, shell = [], dnsServers = [], sentry = False,
      console = []\<rparr>"

definition body0 :: SaveSettings where
  \<comment> \<open>a request that sets \<open>doNotTrack\<close> and a new fqdn\<close>
  "body0 =
     \<lparr>b_doNotTrack = Some True, b_fqdn = Some ''new.example.com'',
      b_isAPIDebuggingEnabled = Some False, b_isRegistrationEnabled = Some False,
      b_dualCerts = Some False, b_minPort = Some 9000, b_maxPort = Some 9100,
      b_isAutoUpdateEnabled = Some False, b_isDNSCheckEnabled = Some True,
      b_DNSServers = None, b_proxyDefaultRedirect = None\<rparr>"

definition unreachable :: exn where
  "unreachable = Obj \<lparr>status = None, message = Some ''Can not reach database server'',
                       code = Some ''P1001''\<rparr>"

definition worldF :: world where
  \<comment> \<open>the sample store, whose third call will be rejected\<close>
  "worldF = world0\<lparr>faults := [None, None, Some unreachable]\<rparr>"


section \<open>Properties\<close>

subsection \<open>How the building blocks run\<close>

lemmas run_defs = bindM_def returnM_def throwM_def tryCatch_def liftE_def whenM_def external_def
  findMany_def deleteMany_def updateMany_def update_def create_def reading_def
  awaitListSettings_def asyncExecShell_def
  put_setting_def put_sshKey_def put_certificate_def put_dockerRegistry_def put_application_def

lemmas eval_defs = run_defs catchErrorHandler_def

lemma same_faults: "faults w = fs \<Longrightarrow> w\<lparr>faults := fs\<rparr> = w"
  by auto

lemma external_eq:
  "external w =
     ((case nextFault (faults w) of Some e \<Rightarrow> Inl e | None \<Rightarrow> Inr ()),
      w\<lparr>faults := tl (faults w)\<rparr>)"
  by (auto simp: external_def nextFault_def same_faults split: list.splits option.splits)

lemmas seq_defs = bindM_def returnM_def throwM_def liftE_def whenM_def external_eq
  findMany_def deleteMany_def updateMany_def update_def create_def reading_def
  awaitListSettings_def asyncExecShell_def
  put_setting_def put_sshKey_def put_certificate_def put_dockerRegistry_def put_application_def

lemma bindM_Inr:
  "bindM m f w = (Inr y, w') \<Longrightarrow> \<exists>x w1. m w = (Inr x, w1) \<and> f x w1 = (Inr y, w')"
  by (auto simp: bindM_def split: prod.splits sum.splits)

lemma external_faults: "external w = (r, w') \<Longrightarrow> \<exists>fs. w' = w\<lparr>faults := fs\<rparr>"
proof (cases "faults w")
  case Nil
  assume "external w = (r, w')"
  with Nil have "w' = w\<lparr>faults := faults w\<rparr>" by (simp add: external_def)
  then show ?thesis ..
next
  case (Cons a fs)
  assume "external w = (r, w')"
  with Cons have "w' = w\<lparr>faults := fs\<rparr>" by (cases a) (auto simp: external_def)
  then show ?thesis ..
qed

lemma findMany_Inr:
  assumes "findMany tbl P w = (Inr xs, w')"
  shows "(\<exists>fs. w' = w\<lparr>faults := fs\<rparr>) \<and> xs = filter P (tbl w')"
proof -
  from assms obtain u w1 where e: "external w = (Inr u, w1)"
    and r: "(Inr (filter P (tbl w1)), w1) = (Inr xs, w')"
    unfolding findMany_def by (blast dest: bindM_Inr)
  from r have "w1 = w'" "xs = filter P (tbl w')" by auto
  with external_faults [OF e] show ?thesis by simp
qed

lemma awaitListSettings_Inr:
  assumes "awaitListSettings env w = (Inr s, w')"
  shows "(\<exists>fs. w' = w\<lparr>faults := fs\<rparr>) \<and> s = listSettings env (db_setting w)"
proof -
  from assms obtain u w1 where e: "external w = (Inr u, w1)"
    and r: "(Inr (listSettings env (db_setting w1)), w1) = (Inr s, w')"
    unfolding awaitListSettings_def by (blast dest: bindM_Inr)
  from external_faults [OF e] obtain fs where "w1 = w\<lparr>faults := fs\<rparr>" ..
  with r show ?thesis by auto
qed

lemma liftE_Inr: "liftE r w = (Inr x, w') \<Longrightarrow> r = Inr x \<and> w' = w"
  by (simp add: liftE_def)

lemma catchErrorHandler_result:
  assumes "catchErrorHandler env e w = (r, w')"
  shows "w' = w \<and> (case r of Inl e' \<Rightarrow> True | Inr v \<Rightarrow> \<exists>h. v = Handled h)"
  using assms
  by (auto simp: catchErrorHandler_def throwM_def returnM_def split: exn.splits sum.splits)

lemma tryCatch_world: "snd (tryCatch m (catchErrorHandler env) w) = snd (m w)"
proof (cases "m w")
  case (Pair r w1)
  show ?thesis
  proof (cases r)
    case (Inl e)
    obtain r2 w2 where 2: "catchErrorHandler env e w1 = (r2, w2)"
      by (cases "catchErrorHandler env e w1")
    from catchErrorHandler_result [OF 2] 2 Pair Inl show ?thesis by (simp add: tryCatch_def)
  next
    case (Inr v)
    with Pair show ?thesis by (simp add: tryCatch_def)
  qed
qed

lemma tryCatch_success:
  "(fst (tryCatch m (catchErrorHandler env) w) = Inr (Send n)) = (fst (m w) = Inr (Send n))"
proof (cases "m w")
  case (Pair r w1)
  show ?thesis
  proof (cases r)
    case (Inl e)
    obtain r2 w2 where 2: "catchErrorHandler env e w1 = (r2, w2)"
      by (cases "catchErrorHandler env e w1")
    from catchErrorHandler_result [OF 2] have "r2 \<noteq> Inr (Send n)" by (cases r2) auto
    with 2 Pair Inl show ?thesis by (simp add: tryCatch_def)
  next
    case (Inr v)
    with Pair show ?thesis by (simp add: tryCatch_def)
  qed
qed

lemma tryCatch_normal:
  assumes "tryCatch m (catchErrorHandler env) w = (Inr v, w')" and "\<And>h. v \<noteq> Handled h"
  shows "m w = (Inr v, w')"
proof (cases "m w")
  case (Pair r w1)
  show ?thesis
  proof (cases r)
    case (Inl e)
    with Pair assms(1) have "catchErrorHandler env e w1 = (Inr v, w')"
      by (simp add: tryCatch_def)
    from catchErrorHandler_result [OF this] assms(2) show ?thesis by auto
  next
    case (Inr u)
    with Pair assms(1) show ?thesis by (simp add: tryCatch_def)
  qed
qed

lemma mapE_Inr: "mapE f xs = Inr ys \<Longrightarrow> list_all2 (\<lambda>x y. f x = Inr y) xs ys"
  by (induction xs arbitrary: ys) (auto split: sum.splits)

lemma mapE_Inl: "x \<in> set xs \<Longrightarrow> f x = Inl e \<Longrightarrow> \<exists>e'. mapE f xs = Inl e'"
  by (induction xs) (auto split: sum.splits)

subsection \<open>Strings\<close>

lemma split_nonempty: "split c s \<noteq> []"
  by (induction s) (auto split: list.splits)

lemma hd_split: "hd (split c s) = takeWhile (\<lambda>x. x \<noteq> c) s"
  by (induction s) (auto split: list.splits simp: split_nonempty)

lemma firstPart_takeWhile: "firstPart h = takeWhile (\<lambda>x. x \<noteq> CHR '':'') h"
  using hd_split [of "CHR '':''" h] split_nonempty [of "CHR '':''" h]
  by (cases "split (CHR '':'') h") (auto simp: firstPart_def)

lemma replace_prefix: "startsWith p s \<Longrightarrow> replace p r s = r @ drop (length p) s"
  by (cases s) (auto simp: startsWith_def)

subsection \<open>What a successful listing holds\<close>

lemma listAllSettings_try_Inr:
  assumes "listAllSettings_try env teamId w = (Inr r, w')"
  shows "\<exists>pub priv keys cns.
           mapE (decryptPassword env) (filter reg_isSystemWide (db_dockerRegistry w)) = Inr pub
         \<and> mapE (decryptPassword env)
               (filter (\<lambda>r. reg_teamId r = teamId \<and> \<not> reg_isSystemWide r) (db_dockerRegistry w))
             = Inr priv
         \<and> mapE (unencryptedKey env) (filter (\<lambda>k. key_teamId k = teamId) (db_sshKey w)) = Inr keys
         \<and> mapE (cnOf env) (filter (\<lambda>c. cert_teamId c = teamId) (db_certificate w)) = Inr cns
         \<and> r = Json \<lparr>settings = listSettings env (db_setting w), certificates = cns,
                      sshKeys = keys,
                      registries = \<lparr>reg_public = pub, reg_private = priv\<rparr>\<rparr>"
  using assms unfolding listAllSettings_try_def
  by (auto dest!: bindM_Inr findMany_Inr awaitListSettings_Inr liftE_Inr simp: returnM_def)

lemma listAllSettings_Json:
  assumes "listAllSettings env teamId w = (Inr (Json js), w')"
  shows "listAllSettings_try env teamId w = (Inr (Json js), w')"
  using assms unfolding listAllSettings_def by (rule tryCatch_normal) simp

lemma cnOf_Inr:
  assumes "cnOf env c = Inr out"
  shows "\<exists>subject line. x509_subject env (cert_cert c) = Inr subject
           \<and> find (startsWith ''CN='') (split (CHR 0x0A) subject) = Some line
           \<and> commonName out = drop 3 line \<and> c_id out = cert_id c
           \<and> c_createdAt out = cert_createdAt c"
proof -
  from assms obtain subject line where s: "x509_subject env (cert_cert c) = Inr subject"
    and l: "find (startsWith ''CN='') (split (CHR 0x0A) subject) = Some line"
    and out: "out = \<lparr>commonName = replace ''CN='' [] line, c_id = cert_id c,
                      c_createdAt = cert_createdAt c\<rparr>"
    by (auto simp: cnOf_def split: sum.splits option.splits)
  from l have "startsWith ''CN='' line" by (auto simp: find_Some_iff)
  then have "replace ''CN='' [] line = drop 3 line"
    by (simp add: replace_prefix numeral_3_eq_3)
  with s l out show ?thesis by simp
qed

lemma listAllSettings_world0:
  "listAllSettings env0 ''1'' world0 =
     (Inr (Json \<lparr>settings = Some setting0,
                 certificates = [\<lparr>commonName = ''example.com'', c_id = ''c1'', c_createdAt = 2\<rparr>],
                 sshKeys = [\<lparr>o_id = ''k1'', o_name = ''deploy'', o_privateKey = ''SECRET'',
                             o_createdAt = 1\<rparr>],
                 registries =
                   \<lparr>reg_public =
                      [\<lparr>reg_id = ''0'', reg_name = ''Docker Hub'',
                        reg_url = ''https://index.docker.io/v1/'', reg_username = None,
                        reg_password = None, reg_isSystemWide = True, reg_teamId = ''0''\<rparr>],
                    reg_private =
                      [\<lparr>reg_id = ''r2'', reg_name = ''packages'', reg_url = ''https://ghcr.io'',
                        reg_username = Some ''ci'', reg_password = Some ''token'',
                        reg_isSystemWide = False, reg_teamId = ''1''\<rparr>]\<rparr>\<rparr>), world0)"
  by (simp add: listAllSettings_def listAllSettings_try_def eval_defs env0_def world0_def
        decryptPassword_def unencryptedKey_def cnOf_def startsWith_def)

subsection \<open>The claims\<close>

text \<open>
  C8. The auth redirect of \<open>load\<close>: with no token cookie (and the base settings fetched),
  a path other than \<open>/login\<close> and \<open>/register\<close> gives status 302 with redirect \<open>/login\<close> and the
  base settings in props; \<open>/login\<close> and \<open>/register\<close> give the plain props, with neither
  redirect nor status. The cookie jar is left as it was.
\<close>
theorem load_without_token:
  assumes "get ''/base'' = Inr b"
  shows "load get pathname None =
           (Inr (if pathname \<noteq> ''/login'' \<and> pathname \<noteq> ''/register''
                 then \<lparr>out_status = Some 302, out_redirect = Some ''/login'', out_error = None,
                       out_props = \<lparr>response = None, baseSettings = b\<rparr>, out_stuff = None\<rparr>
                 else \<lparr>out_status = None, out_redirect = None, out_error = None,
                       out_props = \<lparr>response = None, baseSettings = b\<rparr>, out_stuff = None\<rparr>),
            None)"
  using assms by (simp add: load_def truthy_def redirectToLogin_def plainProps_def)

theorem load_without_token_witness:
  "load (\<lambda>p. Inr p) ''/settings'' None =
     (Inr \<lparr>out_status = Some 302, out_redirect = Some ''/login'', out_error = None,
           out_props = \<lparr>response = None, baseSettings = ''/base''\<rparr>, out_stuff = None\<rparr>, None)
   \<and> load (\<lambda>p. Inr p) ''/register'' None =
     (Inr \<lparr>out_status = None, out_redirect = None, out_error = None,
           out_props = \<lparr>response = None, baseSettings = ''/base''\<rparr>, out_stuff = None\<rparr>, None)"
  using load_without_token [of "\<lambda>p. Inr p" "''/base''" "''/settings''"]
        load_without_token [of "\<lambda>p. Inr p" "''/base''" "''/register''"]
  by simp

text \<open>
  C7. Whenever \<open>listAllSettings\<close> returns its settings object, the \<open>certificates\<close> list of
  the object runs in step with the requesting team's certificates in the order of the
  store: each certificate's subject has a line starting with \<open>CN=\<close>, and its entry holds
  the first such line without these three characters as \<open>commonName\<close>, with the
  certificate's id and createdAt.
\<close>
theorem listAllSettings_common_names:
  assumes "listAllSettings env teamId w = (Inr (Json js), w')"
  shows "list_all2
           (\<lambda>c out. \<exists>subject line.
               x509_subject env (cert_cert c) = Inr subject
             \<and> find (startsWith ''CN='') (split (CHR 0x0A) subject) = Some line
             \<and> commonName out = drop 3 line
             \<and> c_id out = cert_id c \<and> c_createdAt out = cert_createdAt c)
           (filter (\<lambda>c. cert_teamId c = teamId) (db_certificate w)) (certificates js)"
proof -
  from listAllSettings_try_Inr [OF listAllSettings_Json [OF assms]]
  have "mapE (cnOf env) (filter (\<lambda>c. cert_teamId c = teamId) (db_certificate w))
          = Inr (certificates js)" by auto
  from mapE_Inr [OF this] show ?thesis
    by (rule list_all2_mono) (rule cnOf_Inr)
qed

theorem listAllSettings_common_names_witness:
  "list_all2
     (\<lambda>c out. \<exists>subject line.
         x509_subject env0 (cert_cert c) = Inr subject
       \<and> find (startsWith ''CN='') (split (CHR 0x0A) subject) = Some line
       \<and> commonName out = drop 3 line
       \<and> c_id out = cert_id c \<and> c_createdAt out = cert_createdAt c)
     (filter (\<lambda>c. cert_teamId c = ''1'') (db_certificate world0))
     [\<lparr>commonName = ''example.com'', c_id = ''c1'', c_createdAt = 2\<rparr>]"
  using listAllSettings_common_names [OF listAllSettings_world0] by simp

text \<open>
  C9. If a certificate of the requesting team has a subject none of whose lines starts
  with \<open>CN=\<close>, \<open>listAllSettings\<close> never returns the settings object: whatever the store
  does, a step of the try block throws (at the latest \<open>.replace\<close> on the \<open>undefined\<close> that
  \<open>find\<close> gave), the throw is caught, and the request ends as the catch clause ends on the
  caught value. So a successful listing needs a \<open>CN=\<close> line in every certificate of the
  team.
\<close>
theorem listAllSettings_needs_common_names:
  assumes "c \<in> set (db_certificate w)" and "cert_teamId c = teamId"
    and "x509_subject env (cert_cert c) = Inr subject"
    and "\<not> list_ex (startsWith ''CN='') (split (CHR 0x0A) subject)"
  shows "(\<exists>e w'. listAllSettings_try env teamId w = (Inl e, w')
                 \<and> listAllSettings env teamId w = catchErrorHandler env e w')
       \<and> (\<forall>js. fst (listAllSettings env teamId w) \<noteq> Inr (Json js))"
proof -
  from assms(4) have "find (startsWith ''CN='') (split (CHR 0x0A) subject) = None"
    by (simp add: find_None_iff list_ex_iff)
  with assms(3) have "\<exists>e. cnOf env c = Inl e" by (simp add: cnOf_def)
  moreover from assms(1,2)
  have "c \<in> set (filter (\<lambda>c. cert_teamId c = teamId) (db_certificate w))" by simp
  ultimately have bad: "\<exists>e. mapE (cnOf env)
      (filter (\<lambda>c. cert_teamId c = teamId) (db_certificate w)) = Inl e"
    by (blast dest: mapE_Inl)
  obtain r w' where res: "listAllSettings_try env teamId w = (r, w')"
    by (cases "listAllSettings_try env teamId w")
  have "\<exists>e. r = Inl e"
  proof (cases r)
    case (Inl e)
    then show ?thesis by blast
  next
    case (Inr v)
    with res listAllSettings_try_Inr [of env teamId w v w'] bad show ?thesis by auto
  qed
  then obtain e where e: "r = Inl e" ..
  with res have caught: "listAllSettings env teamId w = catchErrorHandler env e w'"
    by (simp add: listAllSettings_def tryCatch_def)
  have "\<forall>js. fst (listAllSettings env teamId w) \<noteq> Inr (Json js)"
  proof
    fix js
    obtain r2 w2 where 2: "catchErrorHandler env e w' = (r2, w2)"
      by (cases "catchErrorHandler env e w'")
    from catchErrorHandler_result [OF 2] have "r2 \<noteq> Inr (Json js)" by (cases r2) auto
    with caught 2 show "fst (listAllSettings env teamId w) \<noteq> Inr (Json js)" by simp
  qed
  with res e caught show ?thesis by blast
qed

theorem listAllSettings_needs_common_names_witness:
  "(\<exists>e w'. listAllSettings_try env0 ''2'' world0 = (Inl e, w')
            \<and> listAllSettings env0 ''2'' world0 = catchErrorHandler env0 e w')
   \<and> (\<forall>js. fst (listAllSettings env0 ''2'' world0) \<noteq> Inr (Json js))"
proof (rule listAllSettings_needs_common_names
         [of "\<lparr>cert_id = ''c2'', cert_cert = ''O=Acme'', cert_createdAt = 3, cert_teamId = ''2''\<rparr>"
             world0 "''2''" env0 "''O=Acme''"])
  show "\<lparr>cert_id = ''c2'', cert_cert = ''O=Acme'', cert_createdAt = 3, cert_teamId = ''2''\<rparr>
          \<in> set (db_certificate world0)" by (simp add: world0_def)
  show "cert_teamId \<lparr>cert_id = ''c2'', cert_cert = ''O=Acme'', cert_createdAt = 3,
                     cert_teamId = ''2''\<rparr> = ''2''" by simp
  show "x509_subject env0 (cert_cert \<lparr>cert_id = ''c2'', cert_cert = ''O=Acme'',
                                       cert_createdAt = 3, cert_teamId = ''2''\<rparr>) = Inr ''O=Acme''"
    by (simp add: env0_def)
  show "\<not> list_ex (startsWith ''CN='') (split (CHR 0x0A) ''O=Acme'')"
    by (simp add: startsWith_def)
qed

text \<open>
  For any id other than \<open>0\<close>, the registry table only changes after the applications
  have been moved off the id.
\<close>
lemma deleteDockerRegistry_unreferenced:
  assumes "id' \<noteq> ''0''" and "deleteDockerRegistry env teamId id' w = (r, w')"
  shows "db_dockerRegistry w' = db_dockerRegistry w
       \<or> \<not> list_ex (\<lambda>a. app_dockerRegistryId a = id') (db_application w')"
proof -
  from assms(2) have "snd (deleteDockerRegistry env teamId id' w) = w'" by simp
  then have "w' = snd (deleteDockerRegistry_try env teamId id' w)"
    by (simp add: deleteDockerRegistry_def tryCatch_world)
  with assms(1) show ?thesis
    by (auto simp: deleteDockerRegistry_try_def run_defs list_ex_iff
             split: list.splits option.splits)
qed

text \<open>
  C10, at the id \<open>0\<close>. The applications that reference the registry are reset to the
  id \<open>0\<close>, which is the registry being deleted when the submitted id is \<open>0\<close>: on the
  sample store, team 0 deletes registry 0, the handler answers 201, the registry is
  gone and an application still references it.
\<close>
theorem deleteDockerRegistry_default_registry:
  "fst (deleteDockerRegistry env0 ''0'' ''0'' world0) = Inr (Send 201)
   \<and> \<not> list_ex (\<lambda>r. reg_id r = ''0'')
         (db_dockerRegistry (snd (deleteDockerRegistry env0 ''0'' ''0'' world0)))
   \<and> list_ex (\<lambda>a. app_dockerRegistryId a = ''0'')
         (db_application (snd (deleteDockerRegistry env0 ''0'' ''0'' world0)))"
  by (simp add: deleteDockerRegistry_def deleteDockerRegistry_try_def eval_defs world0_def)



lemma lowered_fqdn:
  "(if truthy f then map_option l f else f) = map_option (\<lambda>v. if v = [] then v else l v) f"
  by (cases f) (auto simp: truthy_def)


text \<open>
  On the sample store, whose settings row holds \<open>coolify.example.com\<close>, the same name in
  capitals is found configured.
\<close>
lemma checkDomain_capitals:
  "checkDomain env0 ''localhost:3000'' ''s1''
     \<lparr>cd_fqdn = Some ''COOLIFY.Example.com'', cd_forceSave = False, cd_dualCerts = False,
      cd_isDNSCheckEnabled = True\<rparr> world0
   = (Inr (Handled (None, Some ''Domain already configured'')), world0)"
  by (simp add: checkDomain_def checkDomain_try_def eval_defs env0_def world0_def setting0_def
        truthy_def asciiLower_def Let_def)

subsection \<open>SSH keys\<close>






lemma saveSSHKey_world: "snd (saveSSHKey env teamId p name w) = snd (saveSSHKey_try env teamId p name w)"
  by (simp add: saveSSHKey_def tryCatch_world)

text \<open>
  C4, as the code has it. \<open>saveSSHKey\<close> is not a bare create call. It first looks up the
  SSH keys that carry the submitted name, in every team; when the lookup is rejected the
  handler ends on the error path; when a key with the name exists, the handler throws
  the message \<open>Name already used. Choose another one please.\<close> and creates nothing; only
  otherwise does it encrypt the private key and call create, and answer 201 when the
  row is appended.
\<close>
theorem saveSSHKey_cases:
  "saveSSHKey env teamId p name w =
     (case nextFault (faults w) of
        Some e \<Rightarrow> catchErrorHandler env e (w\<lparr>faults := tl (faults w)\<rparr>)
      | None \<Rightarrow>
          if list_ex (\<lambda>k. key_name k = name) (db_sshKey w)
          then catchErrorHandler env
                 (Obj \<lparr>status = None,
                       message = Some ''Name already used. Choose another one please.'',
                       code = None\<rparr>)
                 (w\<lparr>faults := tl (faults w)\<rparr>)
          else (case encrypt env p of
                  Inl e \<Rightarrow> catchErrorHandler env e (w\<lparr>faults := tl (faults w)\<rparr>)
                | Inr c \<Rightarrow>
                    (case nextFault (tl (faults w)) of
                       Some e \<Rightarrow> catchErrorHandler env e (w\<lparr>faults := tl (tl (faults w))\<rparr>)
                     | None \<Rightarrow>
                         (Inr (Send 201),
                          w\<lparr>faults := tl (tl (faults w)),
                            db_sshKey := db_sshKey w @
                              [\<lparr>key_id = cuid env (idCounter w), key_name = name,
                                key_privateKey = c, key_createdAt = now w,
                                key_teamId = teamId\<rparr>],
                            idCounter := idCounter w + 1\<rparr>))))"
  by (auto simp: saveSSHKey_def saveSSHKey_try_def tryCatch_def seq_defs list_ex_iff
           filter_empty_conv
           split: option.splits sum.splits)

text \<open>
  The claim as it was written fails on the sample store: a request of team 2 for a key
  named \<open>deploy\<close>, a name that a key of team 1 carries, is turned down by the handler's
  own check, and the store is left as it was.
\<close>
theorem saveSSHKey_direct_create_counterexample:
  "saveSSHKey env0 ''2'' ''ANOTHER'' ''deploy'' world0 =
     (Inr (Handled (None, Some ''Name already used. Choose another one please.'')), world0)"
  by (simp add: saveSSHKey_def saveSSHKey_try_def eval_defs env0_def world0_def)


subsection \<open>Saving the settings\<close>

lemma bindM_returnM: "bindM (returnM x) f = f x"
  by (simp add: bindM_def returnM_def)

lemma bindM_assoc: "bindM (bindM m f) g = bindM m (\<lambda>x. bindM (f x) g)"
  by (auto simp: bindM_def split: prod.splits sum.splits)

lemma four_updates:
  "bindM (updateSetting env i f1) (\<lambda>_.
   bindM (whenM b1 (updateSetting env i f2)) (\<lambda>_.
   bindM (updateSetting env i f3) (\<lambda>_.
   bindM (whenM b2 (updateSetting env i f4)) k)))
   = bindM (applyAll env i ([f1] @ (if b1 then [f2] else []) @ [f3] @ (if b2 then [f4] else [])))
       k"
  by (cases b1; cases b2) (simp_all add: whenM_def bindM_returnM bindM_assoc)

lemma saveSettings_try_applyAll:
  "saveSettings_try env body =
     bindM (awaitListSettings env) (\<lambda>row.
       case row of
         None \<Rightarrow>
           throwM (TypeError
             ''Cannot destructure property 'id' of '(intermediate value)' as it is null.'')
       | Some s \<Rightarrow>
           bindM (applyAll env (setting_id s) (settingUpdates body)) (\<lambda>_.
           bindM (whenM (b_doNotTrack body = Some False) sentryInit) (\<lambda>_.
           returnM (Send 201))))"
  unfolding saveSettings_try_def settingUpdates_def four_updates ..

lemma settingUpdates_keep_id: "\<forall>f\<in>set (settingUpdates body). \<forall>s. setting_id (f s) = setting_id s"
  by (auto simp: settingUpdates_def flagsData_def fqdnData_def redirectData_def portsData_def
           split: if_splits)

lemma rejection_Suc: "rejection (Suc k) w = rejection k (w\<lparr>faults := tl (faults w)\<rparr>)"
  by (simp add: rejection_def drop_Suc)

lemma rejection_0: "rejection 0 w = nextFault (faults w)"
  by (simp add: rejection_def)

lemma updateThrows_Suc:
  "updateThrows env found w (Suc k) = updateThrows env found (w\<lparr>faults := tl (faults w)\<rparr>) k"
  by (simp add: updateThrows_def rejection_Suc)

lemma updateThrows_table:
  "updateThrows env found (w\<lparr>db_setting := rows\<rparr>) k = updateThrows env found w k"
  by (simp add: updateThrows_def rejection_def)

lemma upt_shift: "map f [Suc 0 ..< Suc n] = map (\<lambda>k. f (Suc k)) [0 ..< n]"
  by (simp add: map_Suc_upt [symmetric] comp_def del: upt_Suc)

lemma list_ex_keep_id:
  assumes "\<And>s. setting_id (f s) = setting_id s"
  shows "list_ex (\<lambda>r. setting_id r = i) (map (\<lambda>r. if setting_id r = i then f r else r) rows)
         = list_ex (\<lambda>r. setting_id r = i) rows"
  using assms by (induction rows) auto

lemma updateSetting_run:
  "updateSetting env i f w =
     (case nextFault (faults w) of
        Some e \<Rightarrow> (Inl e, w\<lparr>faults := tl (faults w)\<rparr>)
      | None \<Rightarrow>
          if list_ex (\<lambda>r. setting_id r = i) (db_setting w)
          then (Inr (), w\<lparr>faults := tl (faults w),
                          db_setting := map (\<lambda>r. if setting_id r = i then f r else r)
                                          (db_setting w)\<rparr>)
          else (Inl (recordNotFound env), w\<lparr>faults := tl (faults w)\<rparr>))"
  by (auto simp: updateSetting_def seq_defs split: option.splits)

lemma applyAll_steps:
  assumes "\<forall>f\<in>set ups. \<forall>s. setting_id (f s) = setting_id s"
  shows "(case firstThrown
               (map (updateThrows env (list_ex (\<lambda>r. setting_id r = i) (db_setting w)) w)
                  [0 ..< length ups]) of
            None \<Rightarrow> fst (applyAll env i ups w) = Inr ()
          | Some e \<Rightarrow> fst (applyAll env i ups w) = Inl e)"
  using assms
proof (induction ups arbitrary: w)
  case Nil
  then show ?case by (simp add: returnM_def)
next
  case (Cons f fs)
  let ?found = "list_ex (\<lambda>r. setting_id r = i) (db_setting w)"
  let ?w1 = "w\<lparr>faults := tl (faults w),
               db_setting := map (\<lambda>r. if setting_id r = i then f r else r) (db_setting w)\<rparr>"
  have list: "map g [0 ..< length (f # fs)] = g 0 # map g [Suc 0 ..< Suc (length fs)]"
    for g :: "nat \<Rightarrow> exn option"
    by (simp add: upt_rec)
  from Cons.prems have keep: "\<And>s. setting_id (f s) = setting_id s"
    and rest: "\<forall>g\<in>set fs. \<forall>s. setting_id (g s) = setting_id s" by auto
  show ?case
  proof (cases "nextFault (faults w)")
    case (Some e)
    then have head: "updateThrows env ?found w 0 = Some e"
      by (simp add: updateThrows_def rejection_0)
    from Some have run: "fst (applyAll env i (f # fs) w) = Inl e"
      by (simp add: updateSetting_run bindM_def)
    show ?thesis unfolding list head by (simp add: run del: applyAll.simps)
  next
    case None
    show ?thesis
    proof (cases ?found)
      case False
      with None have head: "updateThrows env ?found w 0 = Some (recordNotFound env)"
        by (simp add: updateThrows_def rejection_0)
      from None False have run: "fst (applyAll env i (f # fs) w) = Inl (recordNotFound env)"
        by (simp add: updateSetting_run bindM_def)
      show ?thesis unfolding list head by (simp add: run del: applyAll.simps)
    next
      case True
      have found1: "list_ex (\<lambda>r. setting_id r = i) (db_setting ?w1) = ?found"
        using keep by (simp add: list_ex_keep_id)
      have shift: "map (updateThrows env ?found w) [Suc 0 ..< Suc (length fs)]
                   = map (updateThrows env (list_ex (\<lambda>r. setting_id r = i) (db_setting ?w1)) ?w1)
                       [0 ..< length fs]"
        unfolding found1 upt_shift
        by (simp add: updateThrows_def rejection_def drop_Suc)
      from None True have run: "applyAll env i (f # fs) w = applyAll env i fs ?w1"
        by (simp add: updateSetting_run bindM_def)
      from None True have head: "updateThrows env ?found w 0 = None"
        by (simp add: updateThrows_def rejection_0)
      from Cons.IH [OF rest, of ?w1] show ?thesis
        unfolding list head shift run by (simp del: applyAll.simps)
    qed
  qed
qed


subsection \<open>The handlers against their steps\<close>

lemma firstThrown_append:
  "firstThrown (xs @ ys) = (case firstThrown xs of Some e \<Rightarrow> Some e | None \<Rightarrow> firstThrown ys)"
  by (induction xs rule: firstThrown.induct) auto

lemma mapE_thrown: "firstThrown (map (\<lambda>x. thrownBy (f x)) xs) = thrownBy (mapE f xs)"
  by (induction xs) (auto simp: thrownBy_def split: sum.splits)

lemma passwords_thrown:
  "firstThrown (map (passwordThrows env) rs) = thrownBy (mapE (decryptPassword env) rs)"
proof -
  have "passwordThrows env = (\<lambda>r. thrownBy (decryptPassword env r))"
    by (auto simp: fun_eq_iff passwordThrows_def decryptPassword_def thrownBy_def
             split: option.splits sum.splits)
  then show ?thesis by (simp add: mapE_thrown)
qed

lemma keys_thrown:
  "firstThrown (map (\<lambda>k. thrownBy (decrypt env (key_privateKey k))) ks)
     = thrownBy (mapE (unencryptedKey env) ks)"
proof -
  have "(\<lambda>k. thrownBy (decrypt env (key_privateKey k))) = (\<lambda>k. thrownBy (unencryptedKey env k))"
    by (auto simp: fun_eq_iff unencryptedKey_def thrownBy_def split: sum.splits)
  then show ?thesis by (simp add: mapE_thrown)
qed

lemma find_None_list_ex: "(find P xs = None) = (\<not> list_ex P xs)"
  by (auto simp: find_None_iff list_ex_iff)

lemma commonNames_thrown:
  "firstThrown (map (commonNameThrows env) cs) = thrownBy (mapE (cnOf env) cs)"
proof -
  have "commonNameThrows env c = thrownBy (cnOf env c)" for c
  proof (cases "x509_subject env (cert_cert c)")
    case (Inl e)
    then show ?thesis by (simp add: commonNameThrows_def cnOf_def thrownBy_def)
  next
    case (Inr subject)
    then show ?thesis
      by (cases "find (startsWith ''CN='') (split (CHR 0x0A) subject)")
         (auto simp: commonNameThrows_def cnOf_def thrownBy_def find_None_list_ex [symmetric])
  qed
  then have "commonNameThrows env = (\<lambda>c. thrownBy (cnOf env c))" by (simp add: fun_eq_iff)
  then show ?thesis by (simp add: mapE_thrown)
qed

lemma listAllSettings_steps:
  "(case firstThrown (steps env (ListAllSettings teamId) w) of
      None \<Rightarrow> (\<exists>js. fst (listAllSettings_try env teamId w) = Inr (Json js))
    | Some e \<Rightarrow> fst (listAllSettings_try env teamId w) = Inl e)"
  unfolding steps.simps firstThrown_append passwords_thrown keys_thrown commonNames_thrown
  by (auto simp: listAllSettings_try_def seq_defs rejection_def eval_nat_numeral drop_Suc
        thrownBy_def
        split: option.splits sum.splits)


lemma bindM_fst_Inl: "fst (m w) = Inl e \<Longrightarrow> fst (bindM m f w) = Inl e"
  by (cases "m w") (simp add: bindM_def)

lemma bindM_fst_Inr: "fst (m w) = Inr x \<Longrightarrow> bindM m f w = f x (snd (m w))"
  by (cases "m w") (simp add: bindM_def)

lemma awaitListSettings_run:
  "awaitListSettings env w =
     (case nextFault (faults w) of
        Some e \<Rightarrow> (Inl e, w\<lparr>faults := tl (faults w)\<rparr>)
      | None \<Rightarrow> (Inr (listSettings env (db_setting w)), w\<lparr>faults := tl (faults w)\<rparr>))"
  by (auto simp: seq_defs split: option.splits)

lemma saveSettings_steps:
  "(case firstThrown (steps env (SaveSettingsReq body) w) of
      None \<Rightarrow> fst (saveSettings_try env body w) = Inr (Send 201)
    | Some e \<Rightarrow> fst (saveSettings_try env body w) = Inl e)"
proof (cases "nextFault (faults w)")
  case (Some e)
  then show ?thesis
    by (simp add: rejection_0 saveSettings_try_applyAll awaitListSettings_run bindM_def)
next
  case None
  let ?w1 = "w\<lparr>faults := tl (faults w)\<rparr>"
  show ?thesis
  proof (cases "listSettings env (db_setting w)")
    case nil: None
    with None show ?thesis
      by (simp add: rejection_0 saveSettings_try_applyAll awaitListSettings_run bindM_def
            throwM_def)
  next
    case (Some s)
    let ?found = "list_ex (\<lambda>r. setting_id r = setting_id s) (db_setting w)"
    let ?ups = "settingUpdates body"
    have shift: "map (updateThrows env ?found w) [1 ..< Suc (length ?ups)]
                 = map (updateThrows env
                          (list_ex (\<lambda>r. setting_id r = setting_id s) (db_setting ?w1)) ?w1)
                     [0 ..< length ?ups]"
      using upt_shift [of "updateThrows env ?found w" "length ?ups"]
      by (simp add: updateThrows_Suc del: upt_Suc)
    have run: "saveSettings_try env body w =
                 bindM (applyAll env (setting_id s) ?ups) (\<lambda>_.
                 bindM (whenM (b_doNotTrack body = Some False) sentryInit) (\<lambda>_.
                 returnM (Send 201))) ?w1"
      using None Some by (simp add: saveSettings_try_applyAll awaitListSettings_run bindM_def)
    note st = applyAll_steps [OF settingUpdates_keep_id [of body], where env = env
                and i = "setting_id s" and w = ?w1, unfolded shift [symmetric]]
    have "(case firstThrown (map (updateThrows env ?found w) [1 ..< Suc (length ?ups)]) of
             None \<Rightarrow> fst (saveSettings_try env body w) = Inr (Send 201)
           | Some e \<Rightarrow> fst (saveSettings_try env body w) = Inl e)"
    proof (cases "firstThrown (map (updateThrows env ?found w) [1 ..< Suc (length ?ups)])")
      case none: None
      with st have "fst (applyAll env (setting_id s) ?ups ?w1) = Inr ()"
        by (simp del: upt_Suc)
      then have "fst (saveSettings_try env body w) = Inr (Send 201)"
        unfolding run
        by (cases "applyAll env (setting_id s) ?ups ?w1")
           (simp add: bindM_def whenM_def sentryInit_def returnM_def)
      with none show ?thesis by (simp del: upt_Suc)
    next
      case (Some e)
      with st have "fst (applyAll env (setting_id s) ?ups ?w1) = Inl e"
        by (simp del: upt_Suc)
      then have "fst (saveSettings_try env body w) = Inl e"
        unfolding run by (rule bindM_fst_Inl)
      with Some show ?thesis by (simp del: upt_Suc)
    qed
    with None Some show ?thesis by (simp add: rejection_0 del: upt_Suc)
  qed
qed

lemma deleteDomain_steps:
  "(case firstThrown (steps env (DeleteDomain f) w) of
      None \<Rightarrow> (\<exists>url. fst (deleteDomain_try env f w) = Inr (Redirect 302 url))
    | Some e \<Rightarrow> fst (deleteDomain_try env f w) = Inl e)"
  by (auto simp: deleteDomain_try_def seq_defs tryCatch_def setServers_def truthy_def
        updateThrows_def rejection_def eval_nat_numeral drop_Suc
        split: option.splits sum.splits)

lemma checkDomain_steps:
  "(case firstThrown (steps env (CheckDomainReq hostname i body) w) of
      None \<Rightarrow> fst (checkDomain_try env hostname i body w) = Inr EmptyObject
            \<or> (\<exists>v. fst (checkDomain_try env hostname i body w) = Inr (Value v))
    | Some e \<Rightarrow> fst (checkDomain_try env hostname i body w) = Inl e)"
  by (auto simp: checkDomain_try_def seq_defs lowered_fqdn firstPart_takeWhile Let_def
        thrownBy_def
        split: option.splits sum.splits)

lemma checkDNS_steps:
  "(case firstThrown (steps env (CheckDNS hostname domain) w) of
      None \<Rightarrow> fst (checkDNS_try env hostname domain w) = Inr EmptyObject
    | Some e \<Rightarrow> fst (checkDNS_try env hostname domain w) = Inl e)"
  by (auto simp: checkDNS_try_def seq_defs thrownBy_def split: option.splits sum.splits)

lemma saveSSHKey_steps:
  "(case firstThrown (steps env (SaveSSHKey teamId p name) w) of
      None \<Rightarrow> fst (saveSSHKey_try env teamId p name w) = Inr (Send 201)
    | Some e \<Rightarrow> fst (saveSSHKey_try env teamId p name w) = Inl e)"
  by (auto simp: saveSSHKey_try_def seq_defs thrownBy_def rejection_def eval_nat_numeral
        drop_Suc list_ex_iff filter_empty_conv
        split: option.splits sum.splits)

lemma deleteSSHKey_steps:
  "(case firstThrown (steps env (DeleteSSHKey teamId i) w) of
      None \<Rightarrow> fst (deleteSSHKey_try env teamId i w) = Inr (Send 201)
    | Some e \<Rightarrow> fst (deleteSSHKey_try env teamId i w) = Inl e)"
  by (auto simp: deleteSSHKey_try_def seq_defs rejection_def split: option.splits)

lemma deleteCertificates_steps:
  "(case firstThrown (steps env (DeleteCertificates teamId i) w) of
      None \<Rightarrow> fst (deleteCertificates_try env teamId i w) = Inr (Send 201)
    | Some e \<Rightarrow> fst (deleteCertificates_try env teamId i w) = Inl e)"
  by (auto simp: deleteCertificates_try_def seq_defs rejection_def eval_nat_numeral drop_Suc
        split: option.splits)

lemma setDockerRegistry_steps:
  "(case firstThrown (steps env (SetDockerRegistry teamId i username password) w) of
      None \<Rightarrow> fst (setDockerRegistry_try env teamId i username password w) = Inr (Send 201)
    | Some e \<Rightarrow> fst (setDockerRegistry_try env teamId i username password w) = Inl e)"
  by (auto simp: setDockerRegistry_try_def seq_defs encryptThrows_def encryptIfGiven_def
        updateThrows_def thrownBy_def rejection_def
        split: option.splits sum.splits)

lemma addDockerRegistry_steps:
  "(case firstThrown (steps env (AddDockerRegistry teamId body) w) of
      None \<Rightarrow> fst (addDockerRegistry_try env teamId body w) = Inr (Send 201)
    | Some e \<Rightarrow> fst (addDockerRegistry_try env teamId body w) = Inl e)"
  by (auto simp: addDockerRegistry_try_def seq_defs encryptThrows_def encryptIfGiven_def
        thrownBy_def rejection_def
        split: option.splits sum.splits)

lemma deleteDockerRegistry_steps:
  "(case firstThrown (steps env (DeleteDockerRegistry teamId i) w) of
      None \<Rightarrow> fst (deleteDockerRegistry_try env teamId i w) = Inr (Send 201)
    | Some e \<Rightarrow> fst (deleteDockerRegistry_try env teamId i w) = Inl e)"
  by (auto simp: deleteDockerRegistry_try_def seq_defs rejection_def eval_nat_numeral drop_Suc
        split: option.splits)

lemma try_block_steps:
  "(case firstThrown (steps env req w) of
      None \<Rightarrow> (\<exists>v. fst (try_block env req w) = Inr v \<and> normal_result req v)
    | Some e \<Rightarrow> fst (try_block env req w) = Inl e)"
proof (cases req)
  case (ListAllSettings teamId)
  with listAllSettings_steps [of env teamId w] show ?thesis
    by (cases "firstThrown (steps env req w)") (auto simp del: steps.simps)
next
  case (SaveSettingsReq body)
  with saveSettings_steps [of env body w] show ?thesis
    by (cases "firstThrown (steps env req w)") (auto simp del: steps.simps)
next
  case (DeleteDomain f)
  with deleteDomain_steps [of env f w] show ?thesis
    by (cases "firstThrown (steps env req w)") (auto simp del: steps.simps)
next
  case (CheckDomainReq hostname i body)
  with checkDomain_steps [of env hostname i body w] show ?thesis
    by (cases "firstThrown (steps env req w)") (auto simp del: steps.simps)
next
  case (CheckDNS hostname domain)
  with checkDNS_steps [of env hostname domain w] show ?thesis
    by (cases "firstThrown (steps env req w)") (auto simp del: steps.simps)
next
  case (SaveSSHKey teamId p name)
  with saveSSHKey_steps [of env teamId p name w] show ?thesis
    by (cases "firstThrown (steps env req w)") (auto simp del: steps.simps)
next
  case (DeleteSSHKey teamId i)
  with deleteSSHKey_steps [of env teamId i w] show ?thesis
    by (cases "firstThrown (steps env req w)") (auto simp del: steps.simps)
next
  case (DeleteCertificates teamId i)
  with deleteCertificates_steps [of env teamId i w] show ?thesis
    by (cases "firstThrown (steps env req w)") (auto simp del: steps.simps)
next
  case (SetDockerRegistry teamId i username password)
  with setDockerRegistry_steps [of env teamId i username password w] show ?thesis
    by (cases "firstThrown (steps env req w)") (auto simp del: steps.simps)
next
  case (AddDockerRegistry teamId body)
  with addDockerRegistry_steps [of env teamId body w] show ?thesis
    by (cases "firstThrown (steps env req w)") (auto simp del: steps.simps)
next
  case (DeleteDockerRegistry teamId i)
  with deleteDockerRegistry_steps [of env teamId i w] show ?thesis
    by (cases "firstThrown (steps env req w)") (auto simp del: steps.simps)
qed


lemma handler_tryCatch: "handler env req = tryCatch (try_block env req) (catchErrorHandler env)"
  by (cases req)
     (simp_all add: listAllSettings_def saveSettings_def deleteDomain_def checkDomain_def
        checkDNS_def saveSSHKey_def deleteSSHKey_def deleteCertificates_def
        setDockerRegistry_def addDockerRegistry_def deleteDockerRegistry_def)

text \<open>
  C1, as the code has it. For every handler of the settings area and every input: when
  none of the steps of its try block throws, the handler returns its normal result (an
  object, a 201 reply or, for \<open>deleteDomain\<close>, a 302 redirect). When a step throws, the
  first throw ends the block and the handler ends as \<open>errorHandler\<close> ends on the status
  and message of the thrown value: it returns what \<open>errorHandler\<close> returns and throws
  what \<open>errorHandler\<close> throws. The one throw that is not a step's is that of \<open>dns.resolve\<close>
  in \<open>deleteDomain\<close>, which the inner try/catch swallows. (When the thrown value is
  \<open>undefined\<close> or \<open>null\<close>, the catch clause's own pattern throws a TypeError.)
\<close>
theorem handlers_by_steps:
  "(case firstThrown (steps env req w) of
      None \<Rightarrow> (\<exists>v. fst (handler env req w) = Inr v \<and> normal_result req v)
    | Some Undefined \<Rightarrow> (\<exists>m. fst (handler env req w) = Inl (TypeError m))
    | Some Null \<Rightarrow> (\<exists>m. fst (handler env req w) = Inl (TypeError m))
    | Some (Obj t) \<Rightarrow>
        fst (handler env req w) =
          (case errorHandler env (status t) (message t) of
             Inl e \<Rightarrow> Inl e
           | Inr h \<Rightarrow> Inr (Handled h)))"
proof -
  obtain r w1 where run: "try_block env req w = (r, w1)" by (cases "try_block env req w")
  show ?thesis
  proof (cases "firstThrown (steps env req w)")
    case None
    with try_block_steps [of env req w] run obtain v where "r = Inr v" "normal_result req v"
      by auto
    with run None show ?thesis by (simp add: handler_tryCatch tryCatch_def)
  next
    case (Some e)
    with try_block_steps [of env req w] run have "r = Inl e" by simp
    with run have caught: "handler env req w = catchErrorHandler env e w1"
      by (simp add: handler_tryCatch tryCatch_def)
    show ?thesis
    proof (cases e)
      case Undefined
      with caught Some show ?thesis by (auto simp: catchErrorHandler_def throwM_def)
    next
      case Null
      with caught Some show ?thesis by (auto simp: catchErrorHandler_def throwM_def)
    next
      case (Obj t)
      with caught Some show ?thesis
        by (auto simp: catchErrorHandler_def throwM_def returnM_def split: sum.splits)
    qed
  qed
qed

theorem handlers_by_steps_witness:
  "(\<exists>v. fst (handler env0 (DeleteDomain ''coolify.example.com'') world0) = Inr v
        \<and> normal_result (DeleteDomain ''coolify.example.com'') v)
   \<and> fst (handler env0 (SaveSettingsReq body0) worldF)
       = Inr (Handled (None, Some ''Can not reach database server''))
   \<and> (\<exists>m. fst (handler env0 (DeleteSSHKey ''1'' ''k1'') (world0\<lparr>faults := [Some Undefined]\<rparr>))
             = Inl (TypeError m))"
proof -
  have 1: "firstThrown (steps env0 (DeleteDomain ''coolify.example.com'') world0) = None"
    by (simp add: rejection_def nextFault_def updateThrows_def env0_def world0_def setting0_def)
  have 2: "firstThrown (steps env0 (SaveSettingsReq body0) worldF) = Some unreachable"
    by (simp add: rejection_def nextFault_def updateThrows_def env0_def world0_def worldF_def
          setting0_def settingUpdates_def body0_def truthy_def truthyNumber_def upt_rec)
  have 3: "firstThrown (steps env0 (DeleteSSHKey ''1'' ''k1'') (world0\<lparr>faults := [Some Undefined]\<rparr>))
             = Some Undefined"
    by (simp add: rejection_def nextFault_def)
  from handlers_by_steps [of env0 "DeleteDomain ''coolify.example.com''" world0] 1
  have "\<exists>v. fst (handler env0 (DeleteDomain ''coolify.example.com'') world0) = Inr v
        \<and> normal_result (DeleteDomain ''coolify.example.com'') v" by simp
  moreover from handlers_by_steps [of env0 "SaveSettingsReq body0" worldF] 2
  have "fst (handler env0 (SaveSettingsReq body0) worldF)
       = Inr (Handled (None, Some ''Can not reach database server''))"
    by (simp add: unreachable_def env0_def)
  moreover from handlers_by_steps [of env0 "DeleteSSHKey ''1'' ''k1''"
                   "world0\<lparr>faults := [Some Undefined]\<rparr>"] 3
  have "\<exists>m. fst (handler env0 (DeleteSSHKey ''1'' ''k1'') (world0\<lparr>faults := [Some Undefined]\<rparr>))
             = Inl (TypeError m)" by simp
  ultimately show ?thesis by blast
qed

text \<open>
  The claim as it was written fails for \<open>deleteDomain\<close>: on the sample store the
  resolver throws, and the handler still returns its redirect, which is neither what
  \<open>errorHandler\<close> returns nor an object nor a 201 reply.
\<close>
theorem deleteDomain_swallows_counterexample:
  "dns_resolve env0 world0 ''coolify.example.com''
     = Inl (Obj \<lparr>status = None, message = Some ''queryA ENOTFOUND'', code = Some ''ENOTFOUND''\<rparr>)
   \<and> deleteDomain env0 ''coolify.example.com'' world0
     = (Inr (Redirect 302 None), world0\<lparr>db_setting := [setting0\<lparr>fqdn := None\<rparr>]\<rparr>)"
  by (simp add: deleteDomain_def deleteDomain_try_def eval_defs env0_def world0_def setting0_def
        truthy_def)


lemma passing_Nil: "passing n [] = n"
  by (cases n) simp_all

lemma passing_None: "nextFault fs = None \<Longrightarrow> passing (Suc n) fs = Suc (passing n (tl fs))"
  by (cases fs) (auto simp: nextFault_def passing_Nil split: option.splits)

lemma passing_Some: "nextFault fs = Some e \<Longrightarrow> passing (Suc n) fs = 0"
  by (cases fs) (auto simp: nextFault_def split: option.splits)

lemma no_row_no_change:
  "\<not> list_ex (\<lambda>r. setting_id r = i) rows
     \<Longrightarrow> map (\<lambda>r. if setting_id r = i then g r else r) rows = rows"
  by (induction rows) auto

lemma applyAll_run:
  assumes "\<forall>f\<in>set ups. \<forall>s. setting_id (f s) = setting_id s"
  shows "db_setting (snd (applyAll env i ups w)) =
           map (\<lambda>r. if setting_id r = i
                     then fold (\<lambda>f. f) (take (passing (length ups) (faults w)) ups) r else r)
             (db_setting w)
       \<and> (fst (applyAll env i ups w) = Inr ()) =
           (ups = [] \<or> (list_ex (\<lambda>r. setting_id r = i) (db_setting w)
                         \<and> passing (length ups) (faults w) = length ups))
       \<and> db_sshKey (snd (applyAll env i ups w)) = db_sshKey w
       \<and> db_certificate (snd (applyAll env i ups w)) = db_certificate w
       \<and> db_dockerRegistry (snd (applyAll env i ups w)) = db_dockerRegistry w
       \<and> db_application (snd (applyAll env i ups w)) = db_application w"
  using assms
proof (induction ups arbitrary: w)
  case Nil
  then show ?case by (simp add: returnM_def map_idI)
next
  case (Cons f fs)
  let ?w1 = "w\<lparr>faults := tl (faults w),
               db_setting := map (\<lambda>r. if setting_id r = i then f r else r) (db_setting w)\<rparr>"
  from Cons.prems have keep: "\<And>s. setting_id (f s) = setting_id s"
    and rest: "\<forall>g\<in>set fs. \<forall>s. setting_id (g s) = setting_id s" by auto
  show ?case
  proof (cases "nextFault (faults w)")
    case (Some e)
    then show ?thesis
      by (simp add: updateSetting_run bindM_def passing_Some map_idI)
  next
    case None
    show ?thesis
    proof (cases "list_ex (\<lambda>r. setting_id r = i) (db_setting w)")
      case False
      with None show ?thesis
        by (simp add: updateSetting_run bindM_def no_row_no_change)
    next
      case True
      from None True have run: "applyAll env i (f # fs) w = applyAll env i fs ?w1"
        by (simp add: updateSetting_run bindM_def)
      have found1: "list_ex (\<lambda>r. setting_id r = i) (db_setting ?w1)"
        using keep True by (simp add: list_ex_keep_id)
      have comp: "map (\<lambda>r. if setting_id r = i then g r else r)
                    (map (\<lambda>r. if setting_id r = i then f r else r) rows)
                  = map (\<lambda>r. if setting_id r = i then g (f r) else r) rows"
        for g :: "setting \<Rightarrow> setting" and rows
        using keep by (induction rows) auto
      have le: "passing n xs \<le> n" for n and xs :: "exn option list"
        by (induction n xs rule: passing.induct) auto
      let ?k = "passing (length fs) (tl (faults w))"
      have pk: "passing (length (f # fs)) (faults w) = Suc ?k"
        using None by (simp add: passing_None)
      from Cons.IH [OF rest, of ?w1]
      have tbl: "db_setting (snd (applyAll env i fs ?w1)) =
                   map (\<lambda>r. if setting_id r = i then fold (\<lambda>f. f) (take ?k fs) r else r)
                     (map (\<lambda>r. if setting_id r = i then f r else r) (db_setting w))"
        and ok: "(fst (applyAll env i fs ?w1) = Inr ()) =
                   (fs = [] \<or> (list_ex (\<lambda>r. setting_id r = i) (db_setting ?w1)
                                \<and> ?k = length fs))"
        and others: "db_sshKey (snd (applyAll env i fs ?w1)) = db_sshKey w"
          "db_certificate (snd (applyAll env i fs ?w1)) = db_certificate w"
          "db_dockerRegistry (snd (applyAll env i fs ?w1)) = db_dockerRegistry w"
          "db_application (snd (applyAll env i fs ?w1)) = db_application w"
        by simp_all
      have tbl': "db_setting (snd (applyAll env i (f # fs) w)) =
                    map (\<lambda>r. if setting_id r = i
                              then fold (\<lambda>f. f) (take (passing (length (f # fs)) (faults w))
                                                    (f # fs)) r
                              else r) (db_setting w)"
        unfolding run tbl comp pk by simp
      have ok': "(fst (applyAll env i (f # fs) w) = Inr ()) =
                   (f # fs = [] \<or> (list_ex (\<lambda>r. setting_id r = i) (db_setting w)
                                     \<and> passing (length (f # fs)) (faults w) = length (f # fs)))"
      proof (cases fs)
        case Nil
        with ok True show ?thesis unfolding run pk by (simp add: returnM_def)
      next
        case (Cons g gs)
        with ok found1 True show ?thesis unfolding run pk by simp
      qed
      from tbl' ok' others show ?thesis unfolding run by simp
    qed
  qed
qed

lemma saveSettings_try_run:
  "db_setting (snd (saveSettings_try env body w)) =
     (case nextFault (faults w) of
        Some e \<Rightarrow> db_setting w
      | None \<Rightarrow>
          (case listSettings env (db_setting w) of
             None \<Rightarrow> db_setting w
           | Some s \<Rightarrow>
               map (\<lambda>r. if setting_id r = setting_id s
                         then fold (\<lambda>f. f)
                                (take (passing (length (settingUpdates body)) (tl (faults w)))
                                   (settingUpdates body)) r
                         else r)
                 (db_setting w)))
   \<and> (fst (saveSettings_try env body w) = Inr (Send 201)) =
       (nextFault (faults w) = None
        \<and> (case listSettings env (db_setting w) of
              None \<Rightarrow> False
            | Some s \<Rightarrow> list_ex (\<lambda>r. setting_id r = setting_id s) (db_setting w))
        \<and> passing (length (settingUpdates body)) (tl (faults w)) = length (settingUpdates body))
   \<and> db_sshKey (snd (saveSettings_try env body w)) = db_sshKey w
   \<and> db_certificate (snd (saveSettings_try env body w)) = db_certificate w
   \<and> db_dockerRegistry (snd (saveSettings_try env body w)) = db_dockerRegistry w
   \<and> db_application (snd (saveSettings_try env body w)) = db_application w"
proof (cases "nextFault (faults w)")
  case (Some e)
  then show ?thesis
    by (simp add: saveSettings_try_applyAll awaitListSettings_run bindM_def)
next
  case None
  let ?w1 = "w\<lparr>faults := tl (faults w)\<rparr>"
  show ?thesis
  proof (cases "listSettings env (db_setting w)")
    case nil: None
    with None show ?thesis
      by (simp add: saveSettings_try_applyAll awaitListSettings_run bindM_def throwM_def)
  next
    case (Some s)
    have run: "saveSettings_try env body w =
                 bindM (applyAll env (setting_id s) (settingUpdates body)) (\<lambda>_.
                 bindM (whenM (b_doNotTrack body = Some False) sentryInit) (\<lambda>_.
                 returnM (Send 201))) ?w1"
      using None Some by (simp add: saveSettings_try_applyAll awaitListSettings_run bindM_def)
    have ne: "settingUpdates body \<noteq> []" by (simp add: settingUpdates_def)
    obtain r2 w2 where 2: "applyAll env (setting_id s) (settingUpdates body) ?w1 = (r2, w2)"
      by (cases "applyAll env (setting_id s) (settingUpdates body) ?w1")
    from applyAll_run [OF settingUpdates_keep_id [of body], where env = env
           and i = "setting_id s" and w = ?w1] 2 None Some ne
    show ?thesis
      unfolding run
      by (cases r2)
         (auto simp: bindM_def whenM_def sentryInit_def returnM_def)
  qed
qed

text \<open>
  C2, as the code has it. \<open>saveSettings\<close> mutates the settings row by a sequence of
  update calls (the flags; the fqdn when it is truthy; the default redirect; the ports
  when both are truthy), each a single call on the row whose id \<open>listSettings\<close> gave, with
  no transaction around them. A rejected call changes nothing and ends the request, and
  the updates that went through before it are kept: after the request the settings
  table is the one before it with exactly these updates applied to that row, in their
  order. The handler answers 201 exactly when \<open>listSettings\<close> and every update went
  through. The other tables are untouched.
\<close>
theorem saveSettings_keeps_completed_updates:
  "db_setting (snd (saveSettings env body w)) =
     (case nextFault (faults w) of
        Some e \<Rightarrow> db_setting w
      | None \<Rightarrow>
          (case listSettings env (db_setting w) of
             None \<Rightarrow> db_setting w
           | Some s \<Rightarrow>
               map (\<lambda>r. if setting_id r = setting_id s
                         then fold (\<lambda>f. f)
                                (take (passing (length (settingUpdates body)) (tl (faults w)))
                                   (settingUpdates body)) r
                         else r)
                 (db_setting w)))
   \<and> (fst (saveSettings env body w) = Inr (Send 201)) =
       (nextFault (faults w) = None
        \<and> (case listSettings env (db_setting w) of
              None \<Rightarrow> False
            | Some s \<Rightarrow> list_ex (\<lambda>r. setting_id r = setting_id s) (db_setting w))
        \<and> passing (length (settingUpdates body)) (tl (faults w)) = length (settingUpdates body))
   \<and> db_sshKey (snd (saveSettings env body w)) = db_sshKey w
   \<and> db_certificate (snd (saveSettings env body w)) = db_certificate w
   \<and> db_dockerRegistry (snd (saveSettings env body w)) = db_dockerRegistry w
   \<and> db_application (snd (saveSettings env body w)) = db_application w"
  unfolding saveSettings_def tryCatch_world tryCatch_success by (rule saveSettings_try_run)

theorem saveSettings_keeps_completed_updates_witness:
  "db_setting (snd (saveSettings env0 body0 worldF)) = [flagsData body0 setting0]
   \<and> fst (saveSettings env0 body0 worldF) \<noteq> Inr (Send 201)"
proof -
  have "passing (length (settingUpdates body0)) (tl (faults worldF)) = 1"
    by (simp add: settingUpdates_def body0_def truthy_def truthyNumber_def worldF_def)
  moreover have "nextFault (faults worldF) = None"
    and "listSettings env0 (db_setting worldF) = Some setting0"
    and "db_setting worldF = [setting0]"
    and "take 1 (settingUpdates body0) = [flagsData body0]"
    by (simp_all add: nextFault_def worldF_def world0_def env0_def settingUpdates_def)
  moreover have "length (settingUpdates body0) \<noteq> 1" by (simp add: settingUpdates_def)
  ultimately show ?thesis
    using saveSettings_keeps_completed_updates [of env0 body0 worldF] by simp
qed

text \<open>
  The claim as it was written fails when a later call is rejected: on the sample store
  the flags update goes through, the fqdn update is rejected, the request ends on the
  error path, and the row keeps the new \<open>doNotTrack\<close>.
\<close>
theorem saveSettings_atomic_counterexample:
  "fst (saveSettings env0 body0 worldF) = Inr (Handled (None, Some ''Can not reach database server''))
   \<and> db_setting worldF = [setting0]
   \<and> db_setting (snd (saveSettings env0 body0 worldF)) = [setting0\<lparr>doNotTrack := True\<rparr>]
   \<and> setting0\<lparr>doNotTrack := True\<rparr> \<noteq> setting0"
  by (simp add: saveSettings_def saveSettings_try_def updateSetting_def eval_defs env0_def
          world0_def worldF_def body0_def unreachable_def truthy_def truthyNumber_def setting0_def
          flagsData_def orKeep_def orKeepNullable_def)


subsection \<open>Deleting rows\<close>

lemma filter_other_rows:
  "filter (\<lambda>x. (P x \<longrightarrow> t x \<noteq> u) \<and> t x \<noteq> u) xs = filter (\<lambda>x. t x \<noteq> u) xs"
  by (rule filter_cong) auto

text \<open>
  What the three delete handlers do to the table they delete from: when the handler
  answers 201, the table is the one before the request without the rows whose id is the
  submitted id and whose teamId is the requester's; otherwise it is as it was. In both
  cases the rows of the other teams are still there, unchanged and in their place.
\<close>
lemma deletes_by_id_and_team:
  "db_sshKey (snd (deleteSSHKey env teamId id' w)) =
     (if fst (deleteSSHKey env teamId id' w) = Inr (Send 201)
      then filter (\<lambda>k. \<not> (key_id k = id' \<and> key_teamId k = teamId)) (db_sshKey w)
      else db_sshKey w)
   \<and> filter (\<lambda>k. key_teamId k \<noteq> teamId) (db_sshKey (snd (deleteSSHKey env teamId id' w)))
       = filter (\<lambda>k. key_teamId k \<noteq> teamId) (db_sshKey w)
   \<and> db_certificate (snd (deleteCertificates env teamId id' w)) =
     (if fst (deleteCertificates env teamId id' w) = Inr (Send 201)
      then filter (\<lambda>c. \<not> (cert_id c = id' \<and> cert_teamId c = teamId)) (db_certificate w)
      else db_certificate w)
   \<and> filter (\<lambda>c. cert_teamId c \<noteq> teamId)
         (db_certificate (snd (deleteCertificates env teamId id' w)))
       = filter (\<lambda>c. cert_teamId c \<noteq> teamId) (db_certificate w)
   \<and> db_dockerRegistry (snd (deleteDockerRegistry env teamId id' w)) =
     (if fst (deleteDockerRegistry env teamId id' w) = Inr (Send 201)
      then filter (\<lambda>r. \<not> (reg_id r = id' \<and> reg_teamId r = teamId)) (db_dockerRegistry w)
      else db_dockerRegistry w)
   \<and> filter (\<lambda>r. reg_teamId r \<noteq> teamId)
         (db_dockerRegistry (snd (deleteDockerRegistry env teamId id' w)))
       = filter (\<lambda>r. reg_teamId r \<noteq> teamId) (db_dockerRegistry w)"
  unfolding deleteSSHKey_def deleteCertificates_def deleteDockerRegistry_def tryCatch_world
    tryCatch_success
  by (auto simp: deleteSSHKey_try_def deleteCertificates_try_def deleteDockerRegistry_try_def
        seq_defs filter_other_rows
        split: option.splits)

text \<open>
  C5, at a registry of another team. The update of the applications in
  \<open>deleteDockerRegistry\<close> has no team condition, and nothing checks that the registry is
  the requester's: on the sample store team 1 submits the id of registry \<open>r1\<close>, which
  belongs to team 2. No row matches the id and the team, so no registry is deleted, the
  handler answers 201, and the application that used team 2's registry has been moved
  to registry \<open>0\<close>.
\<close>
theorem deleteDockerRegistry_foreign_registry:
  "fst (deleteDockerRegistry env0 ''1'' ''r1'' world0) = Inr (Send 201)
   \<and> map (\<lambda>r. (reg_id r, reg_teamId r)) (db_dockerRegistry world0)
       = [(''0'', ''0''), (''r1'', ''2''), (''r2'', ''1'')]
   \<and> db_dockerRegistry (snd (deleteDockerRegistry env0 ''1'' ''r1'' world0))
       = db_dockerRegistry world0
   \<and> db_application world0
       = [\<lparr>app_id = ''a1'', app_dockerRegistryId = ''0''\<rparr>,
          \<lparr>app_id = ''a2'', app_dockerRegistryId = ''r1''\<rparr>]
   \<and> db_application (snd (deleteDockerRegistry env0 ''1'' ''r1'' world0))
       = [\<lparr>app_id = ''a1'', app_dockerRegistryId = ''0''\<rparr>,
          \<lparr>app_id = ''a2'', app_dockerRegistryId = ''0''\<rparr>]"
  by (simp add: deleteDockerRegistry_def deleteDockerRegistry_try_def eval_defs world0_def)


end
